theory Spec2Isabelle
  imports Main "HOL-Library.Sublist"
begin

unbundle bit_operations_syntax

section \<open>The Go library functions the validator calls\<close>

text \<open>
  A panic of the Go program is a value of type \<open>panic\<close>; every function of the model
  that can panic returns \<open>panic + 'a\<close>, with \<open>Inl\<close> for the panic.
  \<^item> \<open>NilOptions\<close>: \<^verbatim>\<open>panic("ValidationOptions cannot be nil")\<close> in \<^verbatim>\<open>Validate\<close>;
  \<^item> \<open>RegexpPanic p\<close>: \<^verbatim>\<open>regexp.MustCompile(p)\<close> on a pattern that does not compile;
  \<^item> \<open>ReflectPanic\<close>: a method of \<^verbatim>\<open>reflect.Value\<close> called on a value it does not
    accept (\<^verbatim>\<open>Type\<close> on the zero Value, \<^verbatim>\<open>Int\<close> on a value whose kind is not a signed
    integer).
\<close>

datatype panic = NilOptions | RegexpPanic string | ReflectPanic

text \<open>
  Package \<^verbatim>\<open>regexp\<close> is not part of the repository. It is a parameter of the model:
  \<open>Compile\<close> gives the compiled pattern, or \<open>None\<close> where \<^verbatim>\<open>regexp.Compile\<close> returns an
  error, and \<open>MatchString\<close> is \<^verbatim>\<open>(*Regexp).MatchString\<close>. \<^verbatim>\<open>regexp.MustCompile\<close> panics
  where \<^verbatim>\<open>Compile\<close> returns an error.
\<close>

record 'r regexp_lib =
  Compile :: "string \<Rightarrow> 'r option"
  MatchString :: "'r \<Rightarrow> string \<Rightarrow> bool"

definition MustCompile :: "'r regexp_lib \<Rightarrow> string \<Rightarrow> panic + 'r" where
  "MustCompile lib p = (case Compile lib p of None \<Rightarrow> Inl (RegexpPanic p) | Some r \<Rightarrow> Inr r)"

text \<open>
  A \<^verbatim>\<open>reflect.Value\<close>: the zero Value (\<^verbatim>\<open>reflect.ValueOf(nil)\<close>), or a value with the
  name of its type (\<^verbatim>\<open>Type().Name()\<close>), the printed form of its type
  (\<^verbatim>\<open>Type().String()\<close>) and its contents. The contents of a value of a signed integer
  kind are an \<^verbatim>\<open>int64\<close>, here an \<open>int\<close>: the validator only compares these numbers, it
  never computes with them, so no operation of the model can leave the 64-bit range.
\<close>

datatype payload = VStr string | VInt int | VOther

datatype go_value = Invalid | Value string string payload

text \<open>\<^verbatim>\<open>Value.String()\<close>: the string itself for a string, \<^verbatim>\<open>"<T Value>"\<close> otherwise.\<close>

fun value_String :: "string \<Rightarrow> payload \<Rightarrow> string" where
  "value_String tstr (VStr s) = s"
| "value_String tstr p = ''<'' @ tstr @ '' Value>''"

text \<open>\<^verbatim>\<open>Value.Int()\<close>: panics unless the kind is Int, Int8, Int16, Int32 or Int64.\<close>

fun value_Int :: "payload \<Rightarrow> panic + int" where
  "value_Int (VInt i) = Inr i"
| "value_Int p = Inl ReflectPanic"

section \<open>value\_validation.go\<close>

record 'r ValueValidation =
  LenMin :: int
  LenMax :: int
  ValMin :: int
  ValMax :: int
  Regexp :: "'r option"
  Flags :: int

text \<open>The constants are \<^verbatim>\<open>1 << iota\<close>, with \<^verbatim>\<open>iota\<close> starting at 1 after the blank.\<close>

definition ValMinNotNil :: int where "ValMinNotNil = push_bit 1 1"
definition ValMaxNotNil :: int where "ValMaxNotNil = push_bit 2 1"
definition Required :: int where "Required = push_bit 3 1"
definition Email :: int where "Email = push_bit 4 1"

definition FailLenMin :: int where "FailLenMin = push_bit 1 1"
definition FailLenMax :: int where "FailLenMax = push_bit 2 1"
definition FailValMin :: int where "FailValMin = push_bit 3 1"
definition FailValMax :: int where "FailValMax = push_bit 4 1"
definition FailEmpty :: int where "FailEmpty = push_bit 5 1"
definition FailRegexp :: int where "FailRegexp = push_bit 6 1"
definition FailEmail :: int where "FailEmail = push_bit 7 1"
definition FailZero :: int where "FailZero = push_bit 8 1"

definition NewValueValidation :: "'r ValueValidation" where
  "NewValueValidation =
     \<lparr>LenMin = -1, LenMax = -1, ValMin = 0, ValMax = 0, Regexp = None, Flags = 0\<rparr>"

text \<open>The pattern of the email check, a backslash before \<open>/\<close> and before \<open>.\<close>.\<close>

definition emailRegex :: string where
  "emailRegex =
     ''^[a-zA-Z0-9.!#$%&'' @ [CHR 0x27] @ ''*+'' @ [CHR 0x5C] @ ''/=?^_`{|}~-]+@[a-zA-Z0-9]''
     @ ''(?:[a-zA-Z0-9-]{0,61}[a-zA-Z0-9])?(?:'' @ [CHR 0x5C]
     @ ''.[a-zA-Z0-9](?:[a-zA-Z0-9-]{0,61}[a-zA-Z0-9])?)*$''"

text \<open>
  \<^verbatim>\<open>ValidateReflectValue\<close> is a sequence of three blocks, each of which may return.
  A block of the model gives \<open>Inl\<close> for a panic, \<open>Inr (Some c)\<close> for
  \<^verbatim>\<open>return false, c\<close> and \<open>Inr None\<close> when control falls through to the next block.
\<close>

text \<open>The block under \<^verbatim>\<open>if v.Flags&Required > 0\<close>.\<close>

definition check_required ::
    "'r ValueValidation \<Rightarrow> string \<Rightarrow> string \<Rightarrow> payload \<Rightarrow> panic + int option" where
  "check_required v name tstr p =
     (let minCanBeZero = (Flags v AND ValMinNotNil > 0);
          maxCanBeZero = (Flags v AND ValMaxNotNil > 0)
      in if Flags v AND Required > 0 then
           if name = ''string'' \<and> value_String tstr p = [] then Inr (Some FailEmpty)
           else if prefix ''int'' name then
             (case value_Int p of
                Inl e \<Rightarrow> Inl e
              | Inr i \<Rightarrow>
                  if i = 0 \<and> \<not> minCanBeZero \<and> \<not> maxCanBeZero \<and> ValMin v = 0 \<and> ValMax v = 0
                  then Inr (Some FailZero) else Inr None)
           else Inr None
         else Inr None)"

text \<open>The block under \<^verbatim>\<open>if value.Type().Name() == "string"\<close>.\<close>

definition check_string ::
    "'r regexp_lib \<Rightarrow> 'r ValueValidation \<Rightarrow> string \<Rightarrow> string \<Rightarrow> payload \<Rightarrow> panic + int option" where
  "check_string lib v name tstr p =
     (if name = ''string'' then
        (let s = value_String tstr p
         in if LenMin v > 0 \<and> int (length s) < LenMin v then Inr (Some FailLenMin)
            else if LenMax v > 0 \<and> int (length s) > LenMax v then Inr (Some FailLenMax)
            else if (case Regexp v of None \<Rightarrow> False | Some r \<Rightarrow> \<not> MatchString lib r s)
              then Inr (Some FailRegexp)
            else if Flags v AND Email > 0 then
              (case MustCompile lib emailRegex of
                 Inl e \<Rightarrow> Inl e
               | Inr r \<Rightarrow> if \<not> MatchString lib r s then Inr (Some FailEmail) else Inr None)
            else Inr None)
      else Inr None)"

text \<open>
  The block under \<^verbatim>\<open>if strings.HasPrefix(value.Type().Name(), "int")\<close>. Go's \<^verbatim>\<open>&&\<close>
  calls \<^verbatim>\<open>value.Int()\<close> only when the bound is set.
\<close>

definition check_int :: "'r ValueValidation \<Rightarrow> string \<Rightarrow> payload \<Rightarrow> panic + int option" where
  "check_int v name p =
     (let minCanBeZero = (Flags v AND ValMinNotNil > 0);
          maxCanBeZero = (Flags v AND ValMaxNotNil > 0)
      in if prefix ''int'' name then
           (case (if ValMin v \<noteq> 0 \<or> minCanBeZero
                  then (case value_Int p of Inl e \<Rightarrow> Inl e | Inr i \<Rightarrow> Inr (ValMin v > i))
                  else Inr False) of
              Inl e \<Rightarrow> Inl e
            | Inr True \<Rightarrow> Inr (Some FailValMin)
            | Inr False \<Rightarrow>
               (case (if ValMax v \<noteq> 0 \<or> maxCanBeZero
                      then (case value_Int p of Inl e \<Rightarrow> Inl e | Inr i \<Rightarrow> Inr (ValMax v < i))
                      else Inr False) of
                  Inl e \<Rightarrow> Inl e
                | Inr True \<Rightarrow> Inr (Some FailValMax)
                | Inr False \<Rightarrow> Inr None))
         else Inr None)"

definition ValidateReflectValue ::
    "'r regexp_lib \<Rightarrow> 'r ValueValidation \<Rightarrow> go_value \<Rightarrow> panic + (bool \<times> int)" where
  "ValidateReflectValue lib v val =
     (case val of
        Invalid \<Rightarrow> Inl ReflectPanic
      | Value name tstr p \<Rightarrow>
          (case check_required v name tstr p of
             Inl e \<Rightarrow> Inl e
           | Inr (Some c) \<Rightarrow> Inr (False, c)
           | Inr None \<Rightarrow>
               (case check_string lib v name tstr p of
                  Inl e \<Rightarrow> Inl e
                | Inr (Some c) \<Rightarrow> Inr (False, c)
                | Inr None \<Rightarrow>
                    (case check_int v name p of
                       Inl e \<Rightarrow> Inl e
                     | Inr (Some c) \<Rightarrow> Inr (False, c)
                     | Inr None \<Rightarrow> Inr (True, 0)))))"

section \<open>The Go string functions the parser calls\<close>

text \<open>
  \<^verbatim>\<open>strings.SplitN(s, " ", -1)\<close>: the substrings between single spaces, all of them; the
  empty string gives one empty substring, two spaces in a row give an empty substring.
\<close>

fun SplitN :: "string \<Rightarrow> string list" where
  "SplitN [] = [[]]"
| "SplitN (c # cs) =
     (if c = CHR '' '' then [] # SplitN cs
      else (case SplitN cs of [] \<Rightarrow> [[c]] | w # ws \<Rightarrow> (c # w) # ws))"

text \<open>\<^verbatim>\<open>strings.Replace(s, old, new, 1)\<close>: the first occurrence of \<open>old\<close> is replaced.\<close>

fun Replace :: "string \<Rightarrow> string \<Rightarrow> string \<Rightarrow> string" where
  "Replace [] old new = (if old = [] then new else [])"
| "Replace (c # cs) old new =
     (if prefix old (c # cs) then new @ drop (length old) (c # cs)
      else c # Replace cs old new)"

text \<open>
  \<^verbatim>\<open>strconv.Atoi\<close> where \<^verbatim>\<open>int\<close> has 64 bits: an optional sign and at least one decimal
  digit, nothing else; \<open>None\<close> where it returns an error, for the syntax or for a
  number outside the range of \<^verbatim>\<open>int\<close>.
\<close>

definition is_digit :: "char \<Rightarrow> bool" where
  "is_digit c = (48 \<le> (of_char c :: nat) \<and> (of_char c :: nat) \<le> 57)"

fun digits_val :: "int \<Rightarrow> string \<Rightarrow> int option" where
  "digits_val n [] = Some n"
| "digits_val n (c # cs) =
     (if is_digit c then digits_val (n * 10 + int (of_char c - 48)) cs else None)"

definition Atoi :: "string \<Rightarrow> int option" where
  "Atoi s =
     (case s of
        [] \<Rightarrow> None
      | c # cs \<Rightarrow>
          (let ds = (if c = CHR ''-'' \<or> c = CHR ''+'' then cs else s)
           in if ds = [] then None
              else (case digits_val 0 ds of
                      None \<Rightarrow> None
                    | Some n \<Rightarrow>
                        (let i = (if c = CHR ''-'' then - n else n)
                         in if - (2 ^ 63) \<le> i \<and> i \<le> 2 ^ 63 - 1 then Some i else None))))"

section \<open>validator.go: the rule parser\<close>

text \<open>
  The body of the inner loop of \<^verbatim>\<open>setValidationFromTags\<close>, for one token \<open>opt\<close> and one
  of the five keys \<open>valOpt\<close>.
\<close>

definition setValidationFromTags_valOpt ::
    "'r regexp_lib \<Rightarrow> 'r ValueValidation \<Rightarrow> string \<Rightarrow> string \<Rightarrow> panic + 'r ValueValidation" where
  "setValidationFromTags_valOpt lib v opt valOpt =
     (if prefix (valOpt @ '':'') opt then
        (let val = Replace opt (valOpt @ '':'') []
         in if valOpt = ''regexp'' then
              (case MustCompile lib val of
                 Inl e \<Rightarrow> Inl e
               | Inr r \<Rightarrow> Inr (v\<lparr>Regexp := Some r\<rparr>))
            else
              (case Atoi val of
                 None \<Rightarrow> Inr v
               | Some i \<Rightarrow>
                   Inr (if valOpt = ''lenmin'' then v\<lparr>LenMin := i\<rparr>
                        else if valOpt = ''lenmax'' then v\<lparr>LenMax := i\<rparr>
                        else if valOpt = ''valmin'' then
                          (if i = 0 then v\<lparr>ValMin := i, Flags := Flags v OR ValMinNotNil\<rparr>
                           else v\<lparr>ValMin := i\<rparr>)
                        else if valOpt = ''valmax'' then
                          (if i = 0 then v\<lparr>ValMax := i, Flags := Flags v OR ValMaxNotNil\<rparr>
                           else v\<lparr>ValMax := i\<rparr>)
                        else v)))
      else Inr v)"

fun setValidationFromTags_valOpts ::
    "'r regexp_lib \<Rightarrow> 'r ValueValidation \<Rightarrow> string \<Rightarrow> string list \<Rightarrow> panic + 'r ValueValidation" where
  "setValidationFromTags_valOpts lib v opt [] = Inr v"
| "setValidationFromTags_valOpts lib v opt (valOpt # rest) =
     (case setValidationFromTags_valOpt lib v opt valOpt of
        Inl e \<Rightarrow> Inl e
      | Inr v' \<Rightarrow> setValidationFromTags_valOpts lib v' opt rest)"

text \<open>The body of the outer loop, for one token.\<close>

definition setValidationFromTags_opt ::
    "'r regexp_lib \<Rightarrow> 'r ValueValidation \<Rightarrow> string \<Rightarrow> panic + 'r ValueValidation" where
  "setValidationFromTags_opt lib v opt =
     (let v1 = (if opt = ''req'' then v\<lparr>Flags := Flags v OR Required\<rparr> else v);
          v2 = (if opt = ''email'' then v1\<lparr>Flags := Flags v1 OR Email\<rparr> else v1)
      in setValidationFromTags_valOpts lib v2 opt
           [''lenmin'', ''lenmax'', ''valmin'', ''valmax'', ''regexp''])"

fun setValidationFromTags_opts ::
    "'r regexp_lib \<Rightarrow> 'r ValueValidation \<Rightarrow> string list \<Rightarrow> panic + 'r ValueValidation" where
  "setValidationFromTags_opts lib v [] = Inr v"
| "setValidationFromTags_opts lib v (opt # opts) =
     (case setValidationFromTags_opt lib v opt of
        Inl e \<Rightarrow> Inl e
      | Inr v' \<Rightarrow> setValidationFromTags_opts lib v' opts)"

definition setValidationFromTags ::
    "'r regexp_lib \<Rightarrow> 'r ValueValidation \<Rightarrow> string \<Rightarrow> string \<Rightarrow> panic + 'r ValueValidation" where
  "setValidationFromTags lib v tag tagRegexp =
     (case setValidationFromTags_opts lib v (SplitN tag) of
        Inl e \<Rightarrow> Inl e
      | Inr v' \<Rightarrow>
          if tagRegexp \<noteq> [] then
            (case MustCompile lib tagRegexp of
               Inl e \<Rightarrow> Inl e
             | Inr r \<Rightarrow> Inr (v'\<lparr>Regexp := Some r\<rparr>))
          else Inr v')"

text \<open>\<^verbatim>\<open>setValidationFromSuffix\<close>, on the name of the field.\<close>

definition setValidationFromSuffix :: "'r ValueValidation \<Rightarrow> string \<Rightarrow> 'r ValueValidation" where
  "setValidationFromSuffix v fieldName =
     (let v1 = (if suffix ''Email'' fieldName then v\<lparr>Flags := Flags v OR Email\<rparr> else v)
      in if suffix ''Price'' fieldName \<and> ValMin v1 = 0 \<and> ValMax v1 = 0
            \<and> Flags v1 AND ValMinNotNil = 0 \<and> Flags v1 AND ValMaxNotNil = 0
         then v1\<lparr>ValMin := 0, Flags := Flags v1 OR ValMinNotNil\<rparr>
         else v1)"

section \<open>validator.go: the struct and its fields\<close>

text \<open>
  \<^verbatim>\<open>Validate\<close> reads its first argument through package \<^verbatim>\<open>reflect\<close>. The model covers
  the documented use, a non-nil pointer to a struct, and takes the struct as the list of
  its fields in declaration order: the name of the field, the kind of its type, its tag
  as the list of the keys and values that \<^verbatim>\<open>Tag.Get\<close> reads, and the value stored in it.
  The branch for an argument that is itself a \<^verbatim>\<open>reflect.Value\<close> is outside the model.
  A Go map is a list of pairs read with \<open>map_of\<close>, with one pair for each key.
  \<open>IntKind\<close> is \<^verbatim>\<open>reflect.Int\<close>.
\<close>

datatype kind =
    Int64 | Int32 | Int16 | Int8 | IntKind | Uint64 | Uint32 | Uint16 | Uint8 | Uint
  | String | OtherKind

record StructField =
  Name :: string
  Kind :: kind
  Tag :: "(string \<times> string) list"
  FieldValue :: go_value

record ValidationOptions =
  RestrictFields :: "(string \<times> bool) list"
  OverwriteFieldTags :: "(string \<times> (string \<times> string) list) list"
  OverwriteTagName :: string
  ValidateWhenSuffix :: bool
  OverwriteFieldValues :: "(string \<times> go_value) list"

definition isInt :: "kind \<Rightarrow> bool" where
  "isInt k =
     (k = Int64 \<or> k = Int32 \<or> k = Int16 \<or> k = Int8 \<or> k = IntKind \<or> k = Uint64 \<or> k = Uint32
      \<or> k = Uint16 \<or> k = Uint8 \<or> k = Uint)"

text \<open>\<^verbatim>\<open>Tag.Get(key)\<close>: the value of the key, the empty string when the tag has no such key.\<close>

definition Tag_Get :: "(string \<times> string) list \<Rightarrow> string \<Rightarrow> string" where
  "Tag_Get tag key = (case map_of tag key of None \<Rightarrow> [] | Some t \<Rightarrow> t)"

definition getFieldTagValues ::
    "StructField \<Rightarrow> string \<Rightarrow> (string \<times> (string \<times> string) list) list \<Rightarrow> string \<times> string" where
  "getFieldTagValues field tagName overwriteFieldTags =
     (let tagVal = Tag_Get (Tag field) tagName;
          tagRegexpVal = Tag_Get (Tag field) (tagName @ ''_regexp'')
      in case map_of overwriteFieldTags (Name field) of
           None \<Rightarrow> (tagVal, tagRegexpVal)
         | Some overwriteTags \<Rightarrow>
             ((case map_of overwriteTags tagName of None \<Rightarrow> tagVal | Some t \<Rightarrow> t),
              (case map_of overwriteTags (tagName @ ''_regexp'') of
                 None \<Rightarrow> tagRegexpVal
               | Some t \<Rightarrow> t)))"

text \<open>
  The loop of \<^verbatim>\<open>Validate\<close> over the fields, with \<open>valid\<close> and \<open>invalidFields\<close> as its
  state. A panic in a field ends the loop: nothing is returned.
\<close>

fun Validate_fields ::
    "'r regexp_lib \<Rightarrow> ValidationOptions \<Rightarrow> string \<Rightarrow> StructField list
       \<Rightarrow> bool \<times> (string \<rightharpoonup> int) \<Rightarrow> panic + (bool \<times> (string \<rightharpoonup> int))" where
  "Validate_fields lib options tagName [] st = Inr st"
| "Validate_fields lib options tagName (field # rest) st =
     (if RestrictFields options \<noteq> []
         \<and> \<not> (case map_of (RestrictFields options) (Name field) of None \<Rightarrow> False | Some b \<Rightarrow> b)
      then Validate_fields lib options tagName rest st
      else if \<not> isInt (Kind field) \<and> Kind field \<noteq> String
      then Validate_fields lib options tagName rest st
      else
        (case setValidationFromTags lib NewValueValidation
                (fst (getFieldTagValues field tagName (OverwriteFieldTags options)))
                (snd (getFieldTagValues field tagName (OverwriteFieldTags options))) of
           Inl e \<Rightarrow> Inl e
         | Inr parsed \<Rightarrow>
             (let validation =
                    (if ValidateWhenSuffix options
                     then setValidationFromSuffix parsed (Name field) else parsed);
                  fieldValue =
                    (case map_of (OverwriteFieldValues options) (Name field) of
                       Some overwriteVal \<Rightarrow> overwriteVal
                     | None \<Rightarrow> FieldValue field)
              in case ValidateReflectValue lib validation fieldValue of
                   Inl e \<Rightarrow> Inl e
                 | Inr (ok, failureFlags) \<Rightarrow>
                     if \<not> ok
                     then Validate_fields lib options tagName rest
                            (False, (snd st)(Name field \<mapsto> failureFlags))
                     else Validate_fields lib options tagName rest st)))"

definition Validate ::
    "'r regexp_lib \<Rightarrow> StructField list \<Rightarrow> ValidationOptions option
       \<Rightarrow> panic + (bool \<times> (string \<rightharpoonup> int))" where
  "Validate lib obj options =
     (case options of
        None \<Rightarrow> Inl NilOptions
      | Some opts \<Rightarrow>
          (let tagName =
                 (if OverwriteTagName opts \<noteq> [] then OverwriteTagName opts else ''validation'')
           in Validate_fields lib opts tagName obj (True, Map.empty)))"

section \<open>Vocabulary of the properties\<close>

text \<open>\<^verbatim>\<open>reflect.ValueOf\<close> of a Go \<^verbatim>\<open>int\<close> and of a Go \<^verbatim>\<open>string\<close>.\<close>

definition int_value :: "int \<Rightarrow> go_value" where
  "int_value i = Value ''int'' ''int'' (VInt i)"

definition string_value :: "string \<Rightarrow> go_value" where
  "string_value s = Value ''string'' ''string'' (VStr s)"

text \<open>
  A failure code fires in the result of an evaluation when the evaluation returns and
  the bit of the code is set in the returned failure flags.
\<close>

definition fires :: "int \<Rightarrow> panic + (bool \<times> int) \<Rightarrow> bool" where
  "fires c res =
     (case res of Inl e \<Rightarrow> False | Inr (ok, failureFlags) \<Rightarrow> failureFlags AND c \<noteq> 0)"

text \<open>
  An instance of the pattern library for evaluating the model on concrete inputs: every
  pattern but \<open>(\<close> compiles, and a compiled pattern matches the string equal to it.
\<close>

definition literal_lib :: "string regexp_lib" where
  "literal_lib =
     \<lparr>Compile = (\<lambda>p. if p = ''('' then None else Some p), MatchString = (\<lambda>r s. r = s)\<rparr>"

text \<open>The options with every field at its zero value, \<^verbatim>\<open>&ValidationOptions{}\<close>.\<close>

definition empty_options :: ValidationOptions where
  "empty_options =
     \<lparr>RestrictFields = [], OverwriteFieldTags = [], OverwriteTagName = [],
      ValidateWhenSuffix = False, OverwriteFieldValues = []\<rparr>"

text \<open>\<^verbatim>\<open>strings.Join(tokens, " ")\<close>, the rule text made of a list of tokens.\<close>

fun Join :: "string list \<Rightarrow> string" where
  "Join [] = []"
| "Join [w] = w"
| "Join (w # w' # ws) = w @ '' '' @ Join (w' # ws)"

text \<open>
  The tokens that the parser is said to drop: a token that is not \<open>req\<close>, not \<open>email\<close>
  and starts with none of the five keys followed by a colon, and a token that starts
  with \<open>lenmin:\<close>, \<open>lenmax:\<close>, \<open>valmin:\<close> or \<open>valmax:\<close> and goes on with a text that
  \<^verbatim>\<open>strconv.Atoi\<close> rejects.
\<close>

definition unrecognized :: "string \<Rightarrow> bool" where
  "unrecognized opt =
     (opt \<noteq> ''req'' \<and> opt \<noteq> ''email''
      \<and> \<not> list_ex (\<lambda>k. prefix (k @ '':'') opt)
            [''lenmin'', ''lenmax'', ''valmin'', ''valmax'', ''regexp''])"

definition unparseable :: "string \<Rightarrow> bool" where
  "unparseable opt =
     list_ex (\<lambda>k. prefix (k @ '':'') opt \<and> Atoi (drop (length k + 1) opt) = None)
       [''lenmin'', ''lenmax'', ''valmin'', ''valmax'']"

definition dropped :: "string \<Rightarrow> bool" where
  "dropped opt = (unrecognized opt \<or> unparseable opt)"

section \<open>Facts about the constants\<close>

lemmas Fail_defs = FailLenMin_def FailLenMax_def FailValMin_def FailValMax_def FailEmpty_def
  FailRegexp_def FailEmail_def FailZero_def

lemmas Flag_defs = ValMinNotNil_def ValMaxNotNil_def Required_def Email_def

lemma int_name_not_string: "prefix ''int'' name \<Longrightarrow> name \<noteq> ''string''"
  by auto

lemma flag_unset_iff:
  "\<not> (f AND ValMinNotNil > 0) \<longleftrightarrow> f AND ValMinNotNil = 0"
  "\<not> (f AND ValMaxNotNil > 0) \<longleftrightarrow> f AND ValMaxNotNil = 0"
  by (auto simp: Flag_defs order.order_iff_strict not_less)

text \<open>
  The engine finds the category of a value in the name of its type: \<open>string\<close> for a
  text, a name that starts with \<open>int\<close> for an integer. On a value of any other type
  name it runs no check, whatever the rule is. \<^verbatim>\<open>Validate\<close> selects the fields by the kind of
  their type, so that it hands fields of the unsigned kinds and of named types
  (\<^verbatim>\<open>type Age int\<close>, \<^verbatim>\<open>type Code string\<close>) to the engine as well.
\<close>

lemma unrecognised_type_passes:
  assumes "name \<noteq> ''string''" and "\<not> prefix ''int'' name"
  shows "ValidateReflectValue lib v (Value name tstr p) = Inr (True, 0)"
  using assms
  by (simp add: ValidateReflectValue_def check_required_def check_string_def check_int_def)

section \<open>Tokens of the rule text\<close>

lemma SplitN_not_Nil: "SplitN s \<noteq> []"
  by (induction s) (auto split: list.splits)

lemma SplitN_no_space: "CHR '' '' \<notin> set s \<Longrightarrow> SplitN s = [s]"
  by (induction s) auto

lemma SplitN_tokens: "t \<in> set (SplitN s) \<Longrightarrow> CHR '' '' \<notin> set t"
  by (induction s arbitrary: t) (auto split: if_splits list.splits)

lemma SplitN_token_space:
  "CHR '' '' \<notin> set w \<Longrightarrow> SplitN (w @ CHR '' '' # s) = w # SplitN s"
  by (induction w) (auto split: list.splits)

lemma SplitN_Join:
  "ws \<noteq> [] \<Longrightarrow> \<forall>t\<in>set ws. CHR '' '' \<notin> set t \<Longrightarrow> SplitN (Join ws) = ws"
  by (induction ws rule: Join.induct) (auto simp: SplitN_no_space SplitN_token_space)

lemma SplitN_append_token:
  "CHR '' '' \<notin> set w \<Longrightarrow> SplitN (s @ CHR '' '' # w) = SplitN s @ [w]"
  by (induction s) (auto simp: SplitN_no_space SplitN_not_Nil split: list.splits)

lemma Replace_prefix: "prefix old s \<Longrightarrow> Replace s old new = new @ drop (length old) s"
  by (cases s) auto

lemma valOpt_no_prefix:
  "\<not> prefix (k @ '':'') opt \<Longrightarrow> setValidationFromTags_valOpt lib v opt k = Inr v"
  by (simp add: setValidationFromTags_valOpt_def)

lemma valOpt_unparseable:
  assumes "k \<noteq> ''regexp''" and "prefix (k @ '':'') opt"
    and "Atoi (drop (length k + 1) opt) = None"
  shows "setValidationFromTags_valOpt lib v opt k = Inr v"
  using assms by (simp add: setValidationFromTags_valOpt_def Replace_prefix)

lemma same_length_prefixes:
  "prefix a s \<Longrightarrow> prefix b s \<Longrightarrow> length a = length b \<Longrightarrow> a = b"
  by (auto simp: prefix_def)

lemma key_of_token:
  assumes "prefix (k @ '':'') opt" and "prefix (k' @ '':'') opt"
    and "length k = length k'"
  shows "k = k'"
  using same_length_prefixes [OF assms(1,2)] assms(3) by simp

lemma dropped_valOpt:
  assumes "dropped opt"
    and "k \<in> set [''lenmin'', ''lenmax'', ''valmin'', ''valmax'', ''regexp'']"
  shows "setValidationFromTags_valOpt lib v opt k = Inr v"
proof (cases "prefix (k @ '':'') opt")
  case False
  then show ?thesis by (rule valOpt_no_prefix)
next
  case True
  with assms(2) have "\<not> unrecognized opt"
    by (auto simp: unrecognized_def)
  with assms(1) have "unparseable opt"
    by (simp add: dropped_def)
  then obtain k' where k': "k' \<in> set [''lenmin'', ''lenmax'', ''valmin'', ''valmax'']"
    "prefix (k' @ '':'') opt" "Atoi (drop (length k' + 1) opt) = None"
    unfolding unparseable_def list_ex_iff by blast
  from k'(1) assms(2) have "length k = length k'"
    by auto
  with True k'(2) have "k = k'"
    by (rule key_of_token)
  with k' have "k \<noteq> ''regexp''" "Atoi (drop (length k + 1) opt) = None"
    by auto
  then show ?thesis
    using True by (simp add: valOpt_unparseable)
qed

lemma dropped_not_flag: "dropped opt \<Longrightarrow> opt \<noteq> ''req'' \<and> opt \<noteq> ''email''"
  by (auto simp: dropped_def unrecognized_def unparseable_def)

lemma dropped_token:
  assumes "dropped opt"
  shows "setValidationFromTags_opt lib v opt = Inr v"
  using dropped_not_flag [OF assms]
  by (simp add: setValidationFromTags_opt_def dropped_valOpt [OF assms])

lemma opts_filter_dropped:
  "setValidationFromTags_opts lib v (filter (\<lambda>t. \<not> dropped t) opts)
     = setValidationFromTags_opts lib v opts"
  by (induction opts arbitrary: v) (auto simp: dropped_token split: sum.splits)

lemma dropped_Nil: "dropped []"
  by (simp add: dropped_def unrecognized_def)

lemma parse_filter_dropped:
  "setValidationFromTags lib v (Join (filter (\<lambda>t. \<not> dropped t) (SplitN tag))) tagRegexp
     = setValidationFromTags lib v tag tagRegexp"
proof (cases "filter (\<lambda>t. \<not> dropped t) (SplitN tag) = []")
  case True
  then have "setValidationFromTags_opts lib v (SplitN tag) = Inr v"
    using opts_filter_dropped [of lib v "SplitN tag"] by simp
  with True show ?thesis
    by (simp add: setValidationFromTags_def dropped_token dropped_Nil)
next
  case False
  have "\<forall>t\<in>set (filter (\<lambda>t. \<not> dropped t) (SplitN tag)). CHR '' '' \<notin> set t"
    by (auto dest: SplitN_tokens)
  with False have "SplitN (Join (filter (\<lambda>t. \<not> dropped t) (SplitN tag)))
      = filter (\<lambda>t. \<not> dropped t) (SplitN tag)"
    by (rule SplitN_Join)
  then show ?thesis
    by (simp add: setValidationFromTags_def opts_filter_dropped)
qed

lemma opts_append:
  "setValidationFromTags_opts lib v (as @ bs) =
     (case setValidationFromTags_opts lib v as of
        Inl e \<Rightarrow> Inl e
      | Inr v' \<Rightarrow> setValidationFromTags_opts lib v' bs)"
  by (induction as arbitrary: v) (auto split: sum.splits)

text \<open>What the parser does with each token that it recognises.\<close>

lemma token_req:
  "setValidationFromTags_opt lib v ''req'' = Inr (v\<lparr>Flags := Flags v OR Required\<rparr>)"
  by (simp add: setValidationFromTags_opt_def setValidationFromTags_valOpt_def)

lemma token_email:
  "setValidationFromTags_opt lib v ''email'' = Inr (v\<lparr>Flags := Flags v OR Email\<rparr>)"
  by (simp add: setValidationFromTags_opt_def setValidationFromTags_valOpt_def)

lemma token_lenmin:
  "Atoi s = Some n \<Longrightarrow>
     setValidationFromTags_opt lib v (''lenmin:'' @ s) = Inr (v\<lparr>LenMin := n\<rparr>)"
  by (simp add: setValidationFromTags_opt_def setValidationFromTags_valOpt_def)

lemma token_lenmax:
  "Atoi s = Some n \<Longrightarrow>
     setValidationFromTags_opt lib v (''lenmax:'' @ s) = Inr (v\<lparr>LenMax := n\<rparr>)"
  by (simp add: setValidationFromTags_opt_def setValidationFromTags_valOpt_def)

lemma token_valmin:
  "Atoi s = Some n \<Longrightarrow>
     setValidationFromTags_opt lib v (''valmin:'' @ s) =
       Inr (if n = 0 then v\<lparr>ValMin := 0, Flags := Flags v OR ValMinNotNil\<rparr>
            else v\<lparr>ValMin := n\<rparr>)"
  by (simp add: setValidationFromTags_opt_def setValidationFromTags_valOpt_def)

lemma token_valmax:
  "Atoi s = Some n \<Longrightarrow>
     setValidationFromTags_opt lib v (''valmax:'' @ s) =
       Inr (if n = 0 then v\<lparr>ValMax := 0, Flags := Flags v OR ValMaxNotNil\<rparr>
            else v\<lparr>ValMax := n\<rparr>)"
  by (simp add: setValidationFromTags_opt_def setValidationFromTags_valOpt_def)

lemma Atoi_0: "Atoi ''0'' = Some 0"
  by (simp add: Atoi_def is_digit_def)

lemma Atoi_9: "Atoi ''9'' = Some 9"
  by (simp add: Atoi_def is_digit_def)

lemma parse_append_valmin0:
  "setValidationFromTags lib v (tag @ '' valmin:0'') [] =
     (case setValidationFromTags lib v tag [] of
        Inl e \<Rightarrow> Inl e
      | Inr p \<Rightarrow> Inr (p\<lparr>ValMin := 0, Flags := Flags p OR ValMinNotNil\<rparr>))"
proof -
  have "SplitN (tag @ '' valmin:0'') = SplitN tag @ [''valmin:0'']"
    using SplitN_append_token [of "''valmin:0''" tag] by simp
  then show ?thesis
    using token_valmin [OF Atoi_0, of lib]
    by (simp add: setValidationFromTags_def opts_append split: sum.splits)
qed

text \<open>A dropped token between two tokens that the parser recognises.\<close>

lemma dropped_between:
  assumes "dropped b" and "CHR '' '' \<notin> set b"
  shows "setValidationFromTags lib v (''req '' @ b @ '' valmax:9'') [] =
     Inr (v\<lparr>Flags := Flags v OR Required, ValMax := 9\<rparr>)"
proof -
  have "SplitN (''req '' @ b @ '' valmax:9'') = [''req'', b, ''valmax:9'']"
    using SplitN_token_space [of "''req''" "b @ '' valmax:9''"]
      SplitN_token_space [OF assms(2), of "''valmax:9''"]
    by (simp add: SplitN_no_space)
  then show ?thesis
    using token_valmax [OF Atoi_9, of lib] dropped_token [OF assms(1), of lib]
    by (simp add: setValidationFromTags_def token_req)
qed

lemma dropped_absent:
  assumes "dropped b" and "\<forall>t\<in>set (as @ b # bs). CHR '' '' \<notin> set t"
  shows "setValidationFromTags lib v (Join (as @ b # bs)) tagRegexp
     = setValidationFromTags lib v (Join (as @ bs)) tagRegexp"
proof -
  have with_b: "SplitN (Join (as @ b # bs)) = as @ b # bs"
    using assms(2) by (intro SplitN_Join) auto
  have opts: "setValidationFromTags_opts lib v (as @ b # bs)
      = setValidationFromTags_opts lib v (as @ bs)"
    using opts_filter_dropped [of lib v "as @ b # bs"] opts_filter_dropped [of lib v "as @ bs"]
      assms(1) by simp
  show ?thesis
  proof (cases "as @ bs = []")
    case True
    then show ?thesis
      using with_b assms(1)
      by (simp add: setValidationFromTags_def dropped_token dropped_Nil)
  next
    case False
    then have "SplitN (Join (as @ bs)) = as @ bs"
      using assms(2) by (intro SplitN_Join) auto
    with with_b opts show ?thesis
      by (simp add: setValidationFromTags_def)
  qed
qed

lemma parse_with_dropped_tokens:
  "setValidationFromTags lib NewValueValidation ''req foo lenmin:x valmax:9 valmin:1.5'' []
     = Inr (NewValueValidation\<lparr>ValMax := 9, Flags := Required\<rparr>)"
  by (simp add: setValidationFromTags_def setValidationFromTags_opt_def
      setValidationFromTags_valOpt_def NewValueValidation_def Atoi_def is_digit_def)

text \<open>
  C7: a token that is not recognised, and a token \<open>lenmin:\<close>, \<open>lenmax:\<close>, \<open>valmin:\<close> or
  \<open>valmax:\<close> whose text is not an integer for \<^verbatim>\<open>strconv.Atoi\<close>, does not make the parser
  fail and leaves the rule as it is. The parser gives for a list of tokens what it
  gives for the list without those tokens, and for a rule text what it gives for the
  text made of the tokens that are left, or for the text without one such token. The
  other tokens are applied: \<open>req\<close> and \<open>email\<close> set their flags, and a token \<open>lenmin:\<close>,
  \<open>lenmax:\<close>, \<open>valmin:\<close> or \<open>valmax:\<close> followed by the text of an integer sets its bound
  (with the explicit-zero flag when a numeric bound is 0). So the rule text made of
  \<open>req\<close>, any dropped token and \<open>valmax:9\<close> gives the start rule with the required flag
  and the maximum 9, and the rule text \<open>req foo lenmin:x valmax:9 valmin:1.5\<close> gives the
  fresh rule with the required flag and the maximum 9.
\<close>

theorem bad_tokens_are_dropped:
  "(dropped opt \<longrightarrow> setValidationFromTags_opt lib v opt = Inr v)
   \<and> setValidationFromTags_opts lib v (filter (\<lambda>t. \<not> dropped t) opts)
       = setValidationFromTags_opts lib v opts
   \<and> setValidationFromTags lib v (Join (filter (\<lambda>t. \<not> dropped t) (SplitN tag))) tagRegexp
       = setValidationFromTags lib v tag tagRegexp
   \<and> (dropped b \<and> (\<forall>t\<in>set (as @ b # bs). CHR '' '' \<notin> set t)
      \<longrightarrow> setValidationFromTags lib v (Join (as @ b # bs)) tagRegexp
          = setValidationFromTags lib v (Join (as @ bs)) tagRegexp)
   \<and> (dropped b \<and> CHR '' '' \<notin> set b
      \<longrightarrow> setValidationFromTags lib v (''req '' @ b @ '' valmax:9'') [] =
            Inr (v\<lparr>Flags := Flags v OR Required, ValMax := 9\<rparr>))
   \<and> setValidationFromTags_opt lib v ''req'' = Inr (v\<lparr>Flags := Flags v OR Required\<rparr>)
   \<and> setValidationFromTags_opt lib v ''email'' = Inr (v\<lparr>Flags := Flags v OR Email\<rparr>)
   \<and> (Atoi s = Some n
      \<longrightarrow> setValidationFromTags_opt lib v (''lenmin:'' @ s) = Inr (v\<lparr>LenMin := n\<rparr>)
        \<and> setValidationFromTags_opt lib v (''lenmax:'' @ s) = Inr (v\<lparr>LenMax := n\<rparr>)
        \<and> setValidationFromTags_opt lib v (''valmin:'' @ s) =
            Inr (if n = 0 then v\<lparr>ValMin := 0, Flags := Flags v OR ValMinNotNil\<rparr>
                 else v\<lparr>ValMin := n\<rparr>)
        \<and> setValidationFromTags_opt lib v (''valmax:'' @ s) =
            Inr (if n = 0 then v\<lparr>ValMax := 0, Flags := Flags v OR ValMaxNotNil\<rparr>
                 else v\<lparr>ValMax := n\<rparr>))
   \<and> setValidationFromTags lib NewValueValidation
         ''req foo lenmin:x valmax:9 valmin:1.5'' []
       = Inr (NewValueValidation\<lparr>ValMax := 9, Flags := Required\<rparr>)"
  using dropped_token [of opt lib v] opts_filter_dropped [of lib v opts]
    parse_filter_dropped [of lib v tag tagRegexp]
    dropped_absent [of b as bs lib v tagRegexp] dropped_between [of b lib v]
    token_req [of lib v] token_email [of lib v]
    token_lenmin [of s n lib v] token_lenmax [of s n lib v]
    token_valmin [of s n lib v] token_valmax [of s n lib v]
    parse_with_dropped_tokens [of lib]
  by blast

theorem bad_tokens_are_dropped_witness:
  "dropped ''lenmin:x'' \<and> dropped ''valmin:1.5'' \<and> dropped ''foo''
   \<and> setValidationFromTags_opt literal_lib NewValueValidation ''lenmin:x''
       = Inr NewValueValidation
   \<and> setValidationFromTags literal_lib NewValueValidation ''req valmax:9'' []
       = setValidationFromTags literal_lib NewValueValidation
           ''req foo lenmin:x valmax:9 valmin:1.5'' []
   \<and> setValidationFromTags literal_lib NewValueValidation ''req lenmin:x valmax:9'' []
       = Inr \<lparr>LenMin = -1, LenMax = -1, ValMin = 0, ValMax = 9, Regexp = None,
              Flags = Required\<rparr>
   \<and> setValidationFromTags literal_lib NewValueValidation
         ''req foo lenmin:x valmax:9 valmin:1.5'' []
       = Inr \<lparr>LenMin = -1, LenMax = -1, ValMin = 0, ValMax = 9, Regexp = None,
              Flags = Required\<rparr>"
  using bad_tokens_are_dropped [where opt = "''lenmin:x''" and lib = literal_lib
      and v = NewValueValidation and opts = "[]"
      and tag = "''req foo lenmin:x valmax:9 valmin:1.5''" and tagRegexp = "[]"
      and b = "''lenmin:x''" and as = "[''req'']" and bs = "[''valmax:9'']"
      and s = "''9''" and n = 9]
  by (simp add: dropped_def unrecognized_def unparseable_def Atoi_def is_digit_def
      NewValueValidation_def Flag_defs)

lemma regexp_token_panics:
  assumes "prefix ''regexp:'' opt" and "Compile lib (drop 7 opt) = None"
  shows "setValidationFromTags_opt lib v opt = Inl (RegexpPanic (drop 7 opt))"
proof -
  from assms(1) obtain p where opt: "opt = ''regexp:'' @ p"
    by (auto simp: prefix_def)
  show ?thesis
    using assms(2) unfolding opt
    by (simp add: setValidationFromTags_opt_def setValidationFromTags_valOpt_def
        MustCompile_def)
qed

lemma opts_regexp_token_panics:
  assumes "opt \<in> set opts" and "prefix ''regexp:'' opt" and "Compile lib (drop 7 opt) = None"
  shows "isl (setValidationFromTags_opts lib v opts)"
  using assms(1)
  by (induction opts arbitrary: v)
    (auto simp: regexp_token_panics [OF assms(2,3)] split: sum.splits)

section \<open>The required check\<close>

lemma parse_req:
  "setValidationFromTags lib NewValueValidation ''req'' [] =
     Inr (NewValueValidation\<lparr>Flags := Required\<rparr>)"
  by (simp add: setValidationFromTags_def setValidationFromTags_opt_def
      setValidationFromTags_valOpt_def NewValueValidation_def)

lemma parse_req_valmin0:
  "setValidationFromTags lib NewValueValidation ''req valmin:0'' [] =
     Inr (NewValueValidation\<lparr>Flags := Required OR ValMinNotNil\<rparr>)"
  by (simp add: setValidationFromTags_def setValidationFromTags_opt_def
      setValidationFromTags_valOpt_def NewValueValidation_def Atoi_def is_digit_def Flag_defs)

text \<open>
  Under a rule with the required flag, the empty value of the type named \<open>string\<close> fails
  with the code \<open>FailEmpty\<close> and nothing else, whatever the length bounds, the pattern and
  the email flag of the rule are: the function returns before it reaches those checks.
\<close>

lemma required_empty_string:
  "Flags v AND Required > 0 \<Longrightarrow>
   ValidateReflectValue lib v (Value ''string'' tstr (VStr [])) = Inr (False, FailEmpty)
   \<and> FailEmpty AND (FailLenMin OR FailLenMax OR FailRegexp OR FailEmail) = 0"
  by (simp add: ValidateReflectValue_def check_required_def Fail_defs)

text \<open>
  C2: under a rule with the required flag, every empty text value is to fail with the
  code \<open>FailEmpty\<close>. The code does so for the type named \<open>string\<close> only. A field
  \<^verbatim>\<open>Code MyString `validation:"req"`\<close> with \<^verbatim>\<open>type MyString string\<close> is of kind String,
  \<^verbatim>\<open>Validate\<close> processes it, and its empty value passes with no code: the engine compares
  the name of the type with \<open>string\<close>. The same field of type \<^verbatim>\<open>string\<close> fails with
  \<open>FailEmpty\<close>. For a string type whose name starts with \<open>int\<close>, as
  \<^verbatim>\<open>type interned string\<close>, the engine calls \<^verbatim>\<open>value.Int()\<close> on the string and panics.
\<close>

theorem required_empty_named_string_passes:
  "ValidateReflectValue lib (NewValueValidation\<lparr>Flags := Required\<rparr>)
     (Value ''MyString'' ''main.MyString'' (VStr [])) = Inr (True, 0)
   \<and> Validate lib
       [\<lparr>Name = ''Code'', Kind = String, Tag = [(''validation'', ''req'')],
         FieldValue = Value ''MyString'' ''main.MyString'' (VStr [])\<rparr>]
       (Some empty_options) = Inr (True, Map.empty)
   \<and> Validate lib
       [\<lparr>Name = ''Code'', Kind = String, Tag = [(''validation'', ''req'')],
         FieldValue = Value ''string'' ''string'' (VStr [])\<rparr>]
       (Some empty_options) = Inr (False, [''Code'' \<mapsto> FailEmpty])
   \<and> ValidateReflectValue lib (NewValueValidation\<lparr>Flags := Required\<rparr>)
       (Value ''interned'' ''main.interned'' (VStr [])) = Inl ReflectPanic"
proof -
  have engine: "ValidateReflectValue lib (NewValueValidation\<lparr>Flags := Required\<rparr>)
      (Value ''MyString'' ''main.MyString'' (VStr [])) = Inr (True, 0)"
    by (simp add: unrecognised_type_passes)
  have plain: "ValidateReflectValue lib (NewValueValidation\<lparr>Flags := Required\<rparr>)
      (Value ''string'' ''string'' (VStr [])) = Inr (False, FailEmpty)"
    by (simp add: required_empty_string NewValueValidation_def Flag_defs)
  have panics: "ValidateReflectValue lib (NewValueValidation\<lparr>Flags := Required\<rparr>)
      (Value ''interned'' ''main.interned'' (VStr [])) = Inl ReflectPanic"
    by (simp add: ValidateReflectValue_def check_required_def NewValueValidation_def
        Flag_defs)
  show ?thesis
    using engine plain panics
    by (simp add: Validate_def Let_def empty_options_def getFieldTagValues_def Tag_Get_def
        parse_req)
qed

lemma required_zero_int:
  assumes "Flags v AND Required > 0" and "prefix ''int'' name"
  shows "ValidateReflectValue lib v (Value name tstr (VInt 0)) =
     (if ValMin v = 0 \<and> ValMax v = 0 \<and> Flags v AND ValMinNotNil = 0
         \<and> Flags v AND ValMaxNotNil = 0
      then Inr (False, FailZero)
      else if ValMin v > 0 then Inr (False, FailValMin)
      else if ValMax v < 0 then Inr (False, FailValMax)
      else Inr (True, 0))"
  using assms int_name_not_string [OF assms(2)]
  by (auto simp add: ValidateReflectValue_def check_required_def check_string_def
      check_int_def flag_unset_iff Let_def)

text \<open>
  The claim C3 as the specification states it fails: the rule text
  \<open>req valmin:0 valmax:-1\<close> sets the required flag and the minimum 0 with its
  explicit-zero flag, and the integer 0 does not pass: it is above the maximum and
  fails with \<open>FailValMax\<close>.
\<close>

theorem explicit_zero_minimum_counterexample:
  "setValidationFromTags literal_lib NewValueValidation ''req valmin:0 valmax:-1'' [] =
     Inr \<lparr>LenMin = -1, LenMax = -1, ValMin = 0, ValMax = -1, Regexp = None,
          Flags = Required OR ValMinNotNil\<rparr>
   \<and> ValidateReflectValue literal_lib
     \<lparr>LenMin = -1, LenMax = -1, ValMin = 0, ValMax = -1, Regexp = None,
      Flags = Required OR ValMinNotNil\<rparr>
     (int_value 0) = Inr (False, FailValMax)"
  by (simp add: required_zero_int int_value_def Flag_defs setValidationFromTags_def
      setValidationFromTags_opt_def setValidationFromTags_valOpt_def NewValueValidation_def
      Atoi_def is_digit_def)

text \<open>
  C3, amended: for the value 0 of a signed integer kind whose type name starts with
  \<open>int\<close>, under a rule with the required flag: when no numeric bound is set (both
  bounds 0, both explicit-zero flags clear) the evaluation fails with \<open>FailZero\<close>; when
  the minimum is 0 with its explicit-zero flag set, the evaluation passes with no code
  exactly when the maximum is not negative, and fails with \<open>FailValMax\<close> when it is;
  whenever a bound is not 0 or an explicit-zero flag is set, \<open>FailZero\<close> is not the
  result. The rule texts \<open>req\<close> and \<open>req valmin:0\<close> give the two rules of the example.
\<close>

theorem required_zero_rescue:
  assumes "Flags v AND Required > 0" and "prefix ''int'' name"
  shows "(ValMin v = 0 \<and> ValMax v = 0 \<and> Flags v AND ValMinNotNil = 0
            \<and> Flags v AND ValMaxNotNil = 0
          \<longrightarrow> ValidateReflectValue lib v (Value name tstr (VInt 0)) = Inr (False, FailZero))
       \<and> (ValMin v = 0 \<and> Flags v AND ValMinNotNil > 0
          \<longrightarrow> (ValidateReflectValue lib v (Value name tstr (VInt 0)) = Inr (True, 0)
                \<longleftrightarrow> 0 \<le> ValMax v)
            \<and> (ValMax v < 0
                \<longrightarrow> ValidateReflectValue lib v (Value name tstr (VInt 0))
                      = Inr (False, FailValMax)))
       \<and> (ValMin v \<noteq> 0 \<or> ValMax v \<noteq> 0 \<or> Flags v AND ValMinNotNil > 0
            \<or> Flags v AND ValMaxNotNil > 0
          \<longrightarrow> \<not> fires FailZero (ValidateReflectValue lib v (Value name tstr (VInt 0))))
       \<and> setValidationFromTags lib NewValueValidation ''req'' [] =
            Inr (NewValueValidation\<lparr>Flags := Required\<rparr>)
       \<and> setValidationFromTags lib NewValueValidation ''req valmin:0'' [] =
            Inr (NewValueValidation\<lparr>Flags := Required OR ValMinNotNil\<rparr>)"
  unfolding required_zero_int [OF assms] parse_req parse_req_valmin0
  by (auto simp: fires_def Fail_defs)

theorem required_zero_rescue_witness:
  "ValidateReflectValue literal_lib (NewValueValidation\<lparr>Flags := Required\<rparr>) (int_value 0)
     = Inr (False, FailZero)
   \<and> ValidateReflectValue literal_lib
       (NewValueValidation\<lparr>Flags := Required OR ValMinNotNil\<rparr>) (int_value 0) = Inr (True, 0)
   \<and> ValidateReflectValue literal_lib
       (NewValueValidation\<lparr>ValMax := 9999, Flags := Required OR ValMinNotNil\<rparr>) (int_value 0)
     = Inr (True, 0)
   \<and> ValidateReflectValue literal_lib
       (NewValueValidation\<lparr>ValMax := -1, Flags := Required OR ValMinNotNil\<rparr>) (int_value 0)
     = Inr (False, FailValMax)"
  using required_zero_rescue [of "NewValueValidation\<lparr>Flags := Required\<rparr>" "''int''"
      literal_lib "''int''"]
    required_zero_rescue [of "NewValueValidation\<lparr>Flags := Required OR ValMinNotNil\<rparr>"
      "''int''" literal_lib "''int''"]
    required_zero_rescue [of
      "NewValueValidation\<lparr>ValMax := 9999, Flags := Required OR ValMinNotNil\<rparr>"
      "''int''" literal_lib "''int''"]
    required_zero_rescue [of
      "NewValueValidation\<lparr>ValMax := -1, Flags := Required OR ValMinNotNil\<rparr>"
      "''int''" literal_lib "''int''"]
  by (simp add: int_value_def NewValueValidation_def Flag_defs)

section \<open>The numeric bounds\<close>

lemma int_bounds_both_set:
  assumes "prefix ''int'' name"
    and "ValMin v \<noteq> 0 \<or> Flags v AND ValMinNotNil > 0"
    and "ValMax v \<noteq> 0 \<or> Flags v AND ValMaxNotNil > 0"
  shows "ValidateReflectValue lib v (Value name tstr (VInt i)) =
     (if i < ValMin v then Inr (False, FailValMin)
      else if ValMax v < i then Inr (False, FailValMax)
      else Inr (True, 0))"
  using assms int_name_not_string [OF assms(1)]
  by (auto simp add: ValidateReflectValue_def check_required_def check_string_def
      check_int_def flag_unset_iff Let_def)

lemma parse_valmin18_valmax150:
  "setValidationFromTags lib NewValueValidation ''valmin:18 valmax:150'' [] =
     Inr (NewValueValidation\<lparr>ValMin := 18, ValMax := 150\<rparr>)"
  by (simp add: setValidationFromTags_def setValidationFromTags_opt_def
      setValidationFromTags_valOpt_def NewValueValidation_def Atoi_def is_digit_def)

lemma numeric_examples:
  "ValidateReflectValue lib (NewValueValidation\<lparr>ValMin := 18, ValMax := 150\<rparr>)
     (int_value 200) = Inr (False, FailValMax)"
  "ValidateReflectValue lib (NewValueValidation\<lparr>ValMin := 18, ValMax := 150\<rparr>)
     (int_value 10) = Inr (False, FailValMin)"
  "ValidateReflectValue lib (NewValueValidation\<lparr>ValMin := 18, ValMax := 150\<rparr>)
     (int_value 18) = Inr (True, 0)"
  "ValidateReflectValue lib (NewValueValidation\<lparr>ValMin := 10, ValMax := 5\<rparr>)
     (int_value 7) = Inr (False, FailValMin)"
  by (simp_all add: int_value_def int_bounds_both_set NewValueValidation_def)

text \<open>
  The claim C4 as the specification states it fails: with the inverted bounds 10 and 5,
  the value 7 is below the minimum and the evaluation returns \<open>FailValMin\<close>; it does not
  pass with neither code.
\<close>

theorem inverted_bounds_counterexample:
  "ValidateReflectValue literal_lib
     \<lparr>LenMin = -1, LenMax = -1, ValMin = 10, ValMax = 5, Regexp = None, Flags = 0\<rparr>
     (int_value 7) = Inr (False, FailValMin)
   \<and> fires FailValMin (ValidateReflectValue literal_lib
     \<lparr>LenMin = -1, LenMax = -1, ValMin = 10, ValMax = 5, Regexp = None, Flags = 0\<rparr>
     (int_value 7))"
  by (simp add: int_value_def int_bounds_both_set fires_def Fail_defs)

text \<open>
  C4, amended: for a value \<open>i\<close> of a signed integer kind whose type name starts with
  \<open>int\<close> and a rule with both numeric bounds set (not 0, or 0 with the explicit-zero
  flag), \<open>FailValMin\<close> fires exactly when \<open>i\<close> is below the minimum; \<open>FailValMax\<close> fires exactly when \<open>i\<close> is above the maximum and not
  below the minimum, since the minimum is checked first and returns; the value passes
  exactly when it lies between the bounds. With the bounds 10 and 5 the value 7 fails
  with \<open>FailValMin\<close> alone. Under the rule text \<open>valmin:18 valmax:150\<close> the value 200
  fails with \<open>FailValMax\<close> alone, 10 with \<open>FailValMin\<close> alone, and 18 passes.
\<close>

theorem numeric_bounds_first_failure:
  assumes "prefix ''int'' name"
    and "ValMin v \<noteq> 0 \<or> Flags v AND ValMinNotNil > 0"
    and "ValMax v \<noteq> 0 \<or> Flags v AND ValMaxNotNil > 0"
  shows "(fires FailValMin (ValidateReflectValue lib v (Value name tstr (VInt i)))
            \<longleftrightarrow> i < ValMin v)
       \<and> (fires FailValMax (ValidateReflectValue lib v (Value name tstr (VInt i)))
            \<longleftrightarrow> ValMax v < i \<and> \<not> i < ValMin v)
       \<and> (ValidateReflectValue lib v (Value name tstr (VInt i)) = Inr (True, 0)
            \<longleftrightarrow> ValMin v \<le> i \<and> i \<le> ValMax v)
       \<and> ValidateReflectValue lib (NewValueValidation\<lparr>ValMin := 10, ValMax := 5\<rparr>)
            (int_value 7) = Inr (False, FailValMin)
       \<and> setValidationFromTags lib NewValueValidation ''valmin:18 valmax:150'' [] =
            Inr (NewValueValidation\<lparr>ValMin := 18, ValMax := 150\<rparr>)
       \<and> ValidateReflectValue lib (NewValueValidation\<lparr>ValMin := 18, ValMax := 150\<rparr>)
            (int_value 200) = Inr (False, FailValMax)
       \<and> ValidateReflectValue lib (NewValueValidation\<lparr>ValMin := 18, ValMax := 150\<rparr>)
            (int_value 10) = Inr (False, FailValMin)
       \<and> ValidateReflectValue lib (NewValueValidation\<lparr>ValMin := 18, ValMax := 150\<rparr>)
            (int_value 18) = Inr (True, 0)"
  unfolding int_bounds_both_set [OF assms] parse_valmin18_valmax150 numeric_examples
  by (auto simp: fires_def Fail_defs)

theorem numeric_bounds_first_failure_witness:
  "fires FailValMin (ValidateReflectValue literal_lib
      (NewValueValidation\<lparr>ValMin := 10, ValMax := 5\<rparr>) (int_value 7))
   \<and> \<not> fires FailValMax (ValidateReflectValue literal_lib
      (NewValueValidation\<lparr>ValMin := 10, ValMax := 5\<rparr>) (int_value 7))
   \<and> fires FailValMax (ValidateReflectValue literal_lib
      (NewValueValidation\<lparr>ValMin := 10, ValMax := 5\<rparr>) (int_value 20))"
  using numeric_bounds_first_failure [of "''int''" "NewValueValidation\<lparr>ValMin := 10, ValMax := 5\<rparr>"
      literal_lib "''int''" 7]
    numeric_bounds_first_failure [of "''int''" "NewValueValidation\<lparr>ValMin := 10, ValMax := 5\<rparr>"
      literal_lib "''int''" 20]
  by (simp add: int_value_def NewValueValidation_def fires_def Fail_defs)

section \<open>One failure code for each evaluation\<close>

lemma check_required_codes:
  "check_required v name tstr p = Inr (Some c) \<Longrightarrow> c = FailEmpty \<or> c = FailZero"
  by (auto simp add: check_required_def Let_def split: if_splits sum.splits)

lemma check_string_codes:
  "check_string lib v name tstr p = Inr (Some c) \<Longrightarrow>
     c = FailLenMin \<or> c = FailLenMax \<or> c = FailRegexp \<or> c = FailEmail"
  by (auto simp add: check_string_def Let_def split: if_splits sum.splits)

lemma check_int_codes:
  "check_int v name p = Inr (Some c) \<Longrightarrow> c = FailValMin \<or> c = FailValMax"
  by (auto simp add: check_int_def Let_def split: if_splits sum.splits bool.splits)

lemma ValidateReflectValue_cases:
  assumes "ValidateReflectValue lib v x = Inr (ok, c)"
  obtains name tstr p where "x = Value name tstr p" and
    "(\<not> ok \<and> check_required v name tstr p = Inr (Some c))
     \<or> (\<not> ok \<and> check_string lib v name tstr p = Inr (Some c))
     \<or> (\<not> ok \<and> check_int v name p = Inr (Some c))
     \<or> (ok \<and> c = 0)"
  using assms
  by (auto simp add: ValidateReflectValue_def split: go_value.splits sum.splits option.splits)

lemma one_code:
  assumes "ValidateReflectValue lib v x = Inr (ok, c)"
  shows "(ok \<and> c = 0)
       \<or> (\<not> ok \<and> c \<in> {FailLenMin, FailLenMax, FailValMin, FailValMax, FailEmpty,
                        FailRegexp, FailEmail, FailZero})"
  using assms
  by (elim ValidateReflectValue_cases)
    (auto dest: check_required_codes check_string_codes check_int_codes)

text \<open>
  The claim C1 as the specification states it fails: the rule has the minimum 100 and
  the maximum 50, the value 70 is below the one and above the other, so that both
  numeric checks apply and both would fail; the evaluation returns at the first, and
  \<open>FailValMax\<close> is not in its result.
\<close>

theorem collect_all_failures_counterexample:
  "ValidateReflectValue literal_lib
     \<lparr>LenMin = -1, LenMax = -1, ValMin = 100, ValMax = 50, Regexp = None, Flags = 0\<rparr>
     (int_value 70) = Inr (False, FailValMin)
   \<and> \<not> fires FailValMax (ValidateReflectValue literal_lib
     \<lparr>LenMin = -1, LenMax = -1, ValMin = 100, ValMax = 50, Regexp = None, Flags = 0\<rparr>
     (int_value 70))"
  by (simp add: int_value_def int_bounds_both_set fires_def Fail_defs)

text \<open>
  C1, amended: an evaluation stops at the first check that fails. Whenever it returns,
  its failure flags are 0, exactly when the value passes, or one single code of the
  eight; \<open>FailValMin\<close> and \<open>FailValMax\<close> are never set together. This holds for every
  rule and every value. For a value of a signed integer kind whose type name starts
  with \<open>int\<close>, below the minimum of a rule with both numeric bounds set, the result is
  \<open>FailValMin\<close> alone, also when the value is above the maximum.
\<close>

theorem one_failure_code:
  assumes "ValidateReflectValue lib v x = Inr (ok, c)"
  shows "(ok \<longleftrightarrow> c = 0)
       \<and> c \<in> {0, FailLenMin, FailLenMax, FailValMin, FailValMax, FailEmpty, FailRegexp,
               FailEmail, FailZero}
       \<and> \<not> (c AND FailValMin \<noteq> 0 \<and> c AND FailValMax \<noteq> 0)
       \<and> (\<forall>name tstr i. x = Value name tstr (VInt i) \<and> prefix ''int'' name
             \<and> (ValMin v \<noteq> 0 \<or> Flags v AND ValMinNotNil > 0)
             \<and> (ValMax v \<noteq> 0 \<or> Flags v AND ValMaxNotNil > 0)
             \<and> i < ValMin v \<longrightarrow> c = FailValMin)"
proof -
  have codes: "(ok \<and> c = 0)
       \<or> (\<not> ok \<and> c \<in> {FailLenMin, FailLenMax, FailValMin, FailValMax, FailEmpty,
                        FailRegexp, FailEmail, FailZero})"
    using assms by (rule one_code)
  then have "ok \<longleftrightarrow> c = 0"
    by (auto simp: Fail_defs)
  moreover from codes have "c \<in> {0, FailLenMin, FailLenMax, FailValMin, FailValMax,
      FailEmpty, FailRegexp, FailEmail, FailZero}"
    by auto
  moreover from codes have "\<not> (c AND FailValMin \<noteq> 0 \<and> c AND FailValMax \<noteq> 0)"
    by (auto simp: Fail_defs)
  moreover have "c = FailValMin"
    if "x = Value name tstr (VInt i)" "prefix ''int'' name"
      "ValMin v \<noteq> 0 \<or> Flags v AND ValMinNotNil > 0"
      "ValMax v \<noteq> 0 \<or> Flags v AND ValMaxNotNil > 0" "i < ValMin v"
    for name tstr i
    using assms that by (simp add: int_bounds_both_set)
  ultimately show ?thesis
    by blast
qed

theorem one_failure_code_witness:
  "FailValMin \<in> {0, FailLenMin, FailLenMax, FailValMin, FailValMax, FailEmpty, FailRegexp,
      FailEmail, FailZero}
   \<and> FailValMin AND FailValMax = 0
   \<and> ValidateReflectValue literal_lib (NewValueValidation\<lparr>ValMin := 100, ValMax := 50\<rparr>)
       (int_value 70) = Inr (False, FailValMin)"
proof -
  have ev: "ValidateReflectValue literal_lib
      (NewValueValidation\<lparr>ValMin := 100, ValMax := 50\<rparr>) (int_value 70)
      = Inr (False, FailValMin)"
    by (simp add: int_value_def int_bounds_both_set NewValueValidation_def)
  show ?thesis
    using one_failure_code [OF ev] ev by (simp add: Fail_defs)
qed

text \<open>
  The claim C10 as the specification states it fails for a negative minimum: under the
  rule text \<open>req valmin:-5\<close> the value 0 is above the minimum and passes.
\<close>

theorem required_negative_minimum_counterexample:
  "setValidationFromTags literal_lib NewValueValidation ''req valmin:-5'' [] =
     Inr \<lparr>LenMin = -1, LenMax = -1, ValMin = -5, ValMax = 0, Regexp = None, Flags = Required\<rparr>
   \<and> ValidateReflectValue literal_lib
     \<lparr>LenMin = -1, LenMax = -1, ValMin = -5, ValMax = 0, Regexp = None, Flags = Required\<rparr>
     (int_value 0) = Inr (True, 0)"
  by (simp add: required_zero_int int_value_def Flag_defs setValidationFromTags_def
      setValidationFromTags_opt_def setValidationFromTags_valOpt_def NewValueValidation_def
      Atoi_def is_digit_def)

lemma parse_req_valmin5:
  "setValidationFromTags lib NewValueValidation ''req valmin:5'' [] =
     Inr (NewValueValidation\<lparr>ValMin := 5, Flags := Required\<rparr>)"
  by (simp add: setValidationFromTags_def setValidationFromTags_opt_def
      setValidationFromTags_valOpt_def NewValueValidation_def Atoi_def is_digit_def)

text \<open>
  C10, amended: under a rule with the required flag and a minimum above 0, as the rule
  text \<open>req valmin:5\<close> gives, the value 0 of a signed integer kind whose type name starts
  with \<open>int\<close> does not fail with \<open>FailZero\<close> but fails the check of the minimum: the
  evaluation returns \<open>FailValMin\<close> and does not pass.
\<close>

theorem required_positive_minimum:
  assumes "Flags v AND Required > 0" and "prefix ''int'' name" and "ValMin v > 0"
  shows "ValidateReflectValue lib v (Value name tstr (VInt 0)) = Inr (False, FailValMin)
       \<and> \<not> fires FailZero (ValidateReflectValue lib v (Value name tstr (VInt 0)))
       \<and> fires FailValMin (ValidateReflectValue lib v (Value name tstr (VInt 0)))
       \<and> setValidationFromTags lib NewValueValidation ''req valmin:5'' [] =
            Inr (NewValueValidation\<lparr>ValMin := 5, Flags := Required\<rparr>)"
  using assms unfolding parse_req_valmin5
  by (simp add: required_zero_int fires_def Fail_defs)

theorem required_positive_minimum_witness:
  "ValidateReflectValue literal_lib (NewValueValidation\<lparr>ValMin := 5, Flags := Required\<rparr>)
     (int_value 0) = Inr (False, FailValMin)"
  using required_positive_minimum [of "NewValueValidation\<lparr>ValMin := 5, Flags := Required\<rparr>"
      "''int''" literal_lib "''int''"]
  by (simp add: int_value_def NewValueValidation_def Flag_defs)

section \<open>Inference from the name of the field\<close>

lemma Price_not_Email: "suffix ''Price'' fieldName \<Longrightarrow> \<not> suffix ''Email'' fieldName"
  by (auto simp: suffix_def)

lemma or_and_same: "((f::int) OR c) AND c = c"
  by (auto simp add: bit_eq_iff bit_and_iff bit_or_iff)

lemma or_and_other: "(a::int) AND b = 0 \<Longrightarrow> (f OR a) AND b = f AND b"
  by (simp add: bit.conj_disj_distrib2)

lemma flag_set_after_or:
  "(f OR ValMinNotNil) AND ValMinNotNil > 0"
  "(f OR ValMinNotNil) AND ValMaxNotNil = f AND ValMaxNotNil"
  using or_and_same [of f ValMinNotNil] or_and_other [of ValMinNotNil ValMaxNotNil f]
  by (simp_all add: Flag_defs)

lemma parse_empty: "setValidationFromTags lib v [] [] = Inr v"
  by (simp add: setValidationFromTags_def setValidationFromTags_opt_def
      setValidationFromTags_valOpt_def)

lemma parse_valmin0:
  "setValidationFromTags lib NewValueValidation ''valmin:0'' [] =
     Inr (NewValueValidation\<lparr>Flags := ValMinNotNil\<rparr>)"
  by (simp add: setValidationFromTags_def setValidationFromTags_opt_def
      setValidationFromTags_valOpt_def NewValueValidation_def Atoi_def is_digit_def)

lemma suffix_ListPrice:
  "setValidationFromSuffix NewValueValidation ''ListPrice'' =
     NewValueValidation\<lparr>Flags := ValMinNotNil\<rparr>"
  by (simp add: setValidationFromSuffix_def NewValueValidation_def suffix_def)

lemma price_suffix:
  assumes "suffix ''Price'' fieldName"
  shows "setValidationFromSuffix v fieldName =
     (if ValMin v = 0 \<and> ValMax v = 0 \<and> Flags v AND ValMinNotNil = 0
         \<and> Flags v AND ValMaxNotNil = 0
      then v\<lparr>ValMin := 0, Flags := Flags v OR ValMinNotNil\<rparr> else v)"
  using assms Price_not_Email [OF assms] by (simp add: setValidationFromSuffix_def)

lemma ListPrice_as_valmin0:
  "Validate lib [\<lparr>Name = ''ListPrice'', Kind = k, Tag = [], FieldValue = x\<rparr>]
      (Some (empty_options\<lparr>ValidateWhenSuffix := True\<rparr>))
   = Validate lib
      [\<lparr>Name = ''ListPrice'', Kind = k, Tag = [(''validation'', ''valmin:0'')],
        FieldValue = x\<rparr>]
      (Some empty_options)"
  by (auto simp add: Validate_def Let_def empty_options_def getFieldTagValues_def
      Tag_Get_def parse_empty parse_valmin0 suffix_ListPrice split: sum.splits)

lemma ListPrice_values:
  "Validate lib
      [\<lparr>Name = ''ListPrice'', Kind = IntKind, Tag = [], FieldValue = int_value 0\<rparr>]
      (Some (empty_options\<lparr>ValidateWhenSuffix := True\<rparr>)) = Inr (True, Map.empty)"
  "Validate lib
      [\<lparr>Name = ''ListPrice'', Kind = IntKind, Tag = [], FieldValue = int_value (-5)\<rparr>]
      (Some (empty_options\<lparr>ValidateWhenSuffix := True\<rparr>))
   = Inr (False, [''ListPrice'' \<mapsto> FailValMin])"
  by (simp_all add: Validate_def Let_def empty_options_def getFieldTagValues_def Tag_Get_def
      parse_empty suffix_ListPrice isInt_def)
    (simp_all add: int_value_def ValidateReflectValue_def check_required_def
      check_string_def check_int_def NewValueValidation_def Flag_defs)

text \<open>\<^verbatim>\<open>Validate\<close> on a struct with one field, its rule text and no other tag.\<close>

lemma Validate_single_field:
  "Validate lib [\<lparr>Name = n, Kind = k, Tag = [(''validation'', tag)], FieldValue = x\<rparr>]
      (Some (empty_options\<lparr>ValidateWhenSuffix := b\<rparr>))
   = (if \<not> isInt k \<and> k \<noteq> String then Inr (True, Map.empty)
      else (case setValidationFromTags lib NewValueValidation tag [] of
              Inl e \<Rightarrow> Inl e
            | Inr parsed \<Rightarrow>
                (case ValidateReflectValue lib
                        (if b then setValidationFromSuffix parsed n else parsed) x of
                   Inl e \<Rightarrow> Inl e
                 | Inr (ok, c) \<Rightarrow>
                     if ok then Inr (True, Map.empty) else Inr (False, [n \<mapsto> c]))))"
  by (auto simp add: Validate_def Let_def empty_options_def getFieldTagValues_def Tag_Get_def
      split: sum.splits)

lemma empty_options_no_suffix: "empty_options\<lparr>ValidateWhenSuffix := False\<rparr> = empty_options"
  by (simp add: empty_options_def)

lemma Price_field_with_bound:
  assumes "suffix ''Price'' n"
    and "setValidationFromTags lib NewValueValidation tag [] = Inr parsed"
    and "\<not> (ValMin parsed = 0 \<and> ValMax parsed = 0 \<and> Flags parsed AND ValMinNotNil = 0
            \<and> Flags parsed AND ValMaxNotNil = 0)"
  shows "Validate lib [\<lparr>Name = n, Kind = k, Tag = [(''validation'', tag)], FieldValue = x\<rparr>]
      (Some (empty_options\<lparr>ValidateWhenSuffix := True\<rparr>))
    = Validate lib [\<lparr>Name = n, Kind = k, Tag = [(''validation'', tag)], FieldValue = x\<rparr>]
      (Some empty_options)"
proof -
  have "setValidationFromSuffix parsed n = parsed"
    using assms(3) by (auto simp add: price_suffix [OF assms(1)])
  then show ?thesis
    using Validate_single_field [of lib n k tag x True]
      Validate_single_field [of lib n k tag x False] assms(2)
    by (simp add: empty_options_no_suffix)
qed

lemma Price_field_without_bound:
  assumes "suffix ''Price'' n"
    and "setValidationFromTags lib NewValueValidation tag [] = Inr parsed"
    and "ValMin parsed = 0 \<and> ValMax parsed = 0 \<and> Flags parsed AND ValMinNotNil = 0
            \<and> Flags parsed AND ValMaxNotNil = 0"
  shows "Validate lib [\<lparr>Name = n, Kind = k, Tag = [(''validation'', tag)], FieldValue = x\<rparr>]
      (Some (empty_options\<lparr>ValidateWhenSuffix := True\<rparr>))
    = Validate lib
        [\<lparr>Name = n, Kind = k, Tag = [(''validation'', tag @ '' valmin:0'')], FieldValue = x\<rparr>]
      (Some empty_options)"
proof -
  have "setValidationFromSuffix parsed n
      = parsed\<lparr>ValMin := 0, Flags := Flags parsed OR ValMinNotNil\<rparr>"
    using assms(3) by (simp add: price_suffix [OF assms(1)])
  then show ?thesis
    using Validate_single_field [of lib n k tag x True]
      Validate_single_field [of lib n k "tag @ '' valmin:0''" x False] assms(2)
    by (simp add: empty_options_no_suffix parse_append_valmin0)
qed

lemma parse_valmax9:
  "setValidationFromTags lib NewValueValidation ''valmax:9'' [] =
     Inr (NewValueValidation\<lparr>ValMax := 9\<rparr>)"
  by (simp add: setValidationFromTags_def setValidationFromTags_opt_def
      setValidationFromTags_valOpt_def NewValueValidation_def Atoi_def is_digit_def)

lemma ListPrice_valmax9:
  "Validate lib
      [\<lparr>Name = ''ListPrice'', Kind = IntKind, Tag = [(''validation'', ''valmax:9'')],
        FieldValue = int_value (-5)\<rparr>]
      (Some (empty_options\<lparr>ValidateWhenSuffix := True\<rparr>)) = Inr (True, Map.empty)"
  by (simp add: Validate_single_field isInt_def parse_valmax9)
    (simp add: setValidationFromSuffix_def suffix_def int_value_def ValidateReflectValue_def
      check_required_def check_string_def check_int_def NewValueValidation_def Flag_defs)

text \<open>
  C5: for a field whose name ends in \<open>Price\<close>, \<^verbatim>\<open>setValidationFromSuffix\<close> changes the rule
  exactly when no numeric bound is set (both bounds 0, both explicit-zero flags clear),
  and the change is the minimum 0 with its explicit-zero flag; in every case both bounds
  and the explicit-zero flag of the maximum are as they were. \<^verbatim>\<open>Validate\<close> applies it to
  the rule that the parser returns for the rule text of the field, so that it runs after
  the parsing: when the rule text has set a numeric bound, the field is validated as
  with inference disabled; when it has set none, the field is validated as with
  \<open>valmin:0\<close> added to its rule text and inference disabled. A field \<open>ListPrice\<close> with
  no rule text, inference enabled, is validated as the same field with the rule text
  \<open>valmin:0\<close> and inference disabled: 0 passes and -5 fails with \<open>FailValMin\<close>; with the
  rule text \<open>valmax:9\<close> the value -5 passes.
\<close>

theorem price_suffix_inference:
  assumes "suffix ''Price'' fieldName"
  shows "setValidationFromSuffix v fieldName =
           (if ValMin v = 0 \<and> ValMax v = 0 \<and> Flags v AND ValMinNotNil = 0
               \<and> Flags v AND ValMaxNotNil = 0
            then v\<lparr>ValMin := 0, Flags := Flags v OR ValMinNotNil\<rparr> else v)
       \<and> (setValidationFromSuffix v fieldName \<noteq> v
            \<longleftrightarrow> ValMin v = 0 \<and> ValMax v = 0 \<and> Flags v AND ValMinNotNil = 0
                \<and> Flags v AND ValMaxNotNil = 0)
       \<and> (ValMin v = 0 \<and> ValMax v = 0 \<and> Flags v AND ValMinNotNil = 0
            \<and> Flags v AND ValMaxNotNil = 0
          \<longrightarrow> ValMin (setValidationFromSuffix v fieldName) = 0
              \<and> Flags (setValidationFromSuffix v fieldName) AND ValMinNotNil > 0)
       \<and> ValMin (setValidationFromSuffix v fieldName) = ValMin v
       \<and> ValMax (setValidationFromSuffix v fieldName) = ValMax v
       \<and> Flags (setValidationFromSuffix v fieldName) AND ValMaxNotNil
            = Flags v AND ValMaxNotNil
       \<and> Validate lib
            [\<lparr>Name = fieldName, Kind = k, Tag = [(''validation'', tag)], FieldValue = x\<rparr>]
            (Some (empty_options\<lparr>ValidateWhenSuffix := True\<rparr>))
          = (if \<not> isInt k \<and> k \<noteq> String then Inr (True, Map.empty)
             else (case setValidationFromTags lib NewValueValidation tag [] of
                     Inl e \<Rightarrow> Inl e
                   | Inr parsed \<Rightarrow>
                       (case ValidateReflectValue lib
                               (setValidationFromSuffix parsed fieldName) x of
                          Inl e \<Rightarrow> Inl e
                        | Inr (ok, c) \<Rightarrow>
                            if ok then Inr (True, Map.empty)
                            else Inr (False, [fieldName \<mapsto> c]))))
       \<and> (\<forall>parsed. setValidationFromTags lib NewValueValidation tag [] = Inr parsed
            \<and> \<not> (ValMin parsed = 0 \<and> ValMax parsed = 0
                  \<and> Flags parsed AND ValMinNotNil = 0 \<and> Flags parsed AND ValMaxNotNil = 0)
          \<longrightarrow> Validate lib
                [\<lparr>Name = fieldName, Kind = k, Tag = [(''validation'', tag)],
                  FieldValue = x\<rparr>]
                (Some (empty_options\<lparr>ValidateWhenSuffix := True\<rparr>))
              = Validate lib
                [\<lparr>Name = fieldName, Kind = k, Tag = [(''validation'', tag)],
                  FieldValue = x\<rparr>]
                (Some empty_options))
       \<and> (\<forall>parsed. setValidationFromTags lib NewValueValidation tag [] = Inr parsed
            \<and> ValMin parsed = 0 \<and> ValMax parsed = 0
            \<and> Flags parsed AND ValMinNotNil = 0 \<and> Flags parsed AND ValMaxNotNil = 0
          \<longrightarrow> Validate lib
                [\<lparr>Name = fieldName, Kind = k, Tag = [(''validation'', tag)],
                  FieldValue = x\<rparr>]
                (Some (empty_options\<lparr>ValidateWhenSuffix := True\<rparr>))
              = Validate lib
                [\<lparr>Name = fieldName, Kind = k, Tag = [(''validation'', tag @ '' valmin:0'')],
                  FieldValue = x\<rparr>]
                (Some empty_options))
       \<and> Validate lib [\<lparr>Name = ''ListPrice'', Kind = k, Tag = [], FieldValue = x\<rparr>]
            (Some (empty_options\<lparr>ValidateWhenSuffix := True\<rparr>))
          = Validate lib
              [\<lparr>Name = ''ListPrice'', Kind = k, Tag = [(''validation'', ''valmin:0'')],
                FieldValue = x\<rparr>]
              (Some empty_options)
       \<and> Validate lib
            [\<lparr>Name = ''ListPrice'', Kind = IntKind, Tag = [], FieldValue = int_value 0\<rparr>]
            (Some (empty_options\<lparr>ValidateWhenSuffix := True\<rparr>)) = Inr (True, Map.empty)
       \<and> Validate lib
            [\<lparr>Name = ''ListPrice'', Kind = IntKind, Tag = [], FieldValue = int_value (-5)\<rparr>]
            (Some (empty_options\<lparr>ValidateWhenSuffix := True\<rparr>))
          = Inr (False, [''ListPrice'' \<mapsto> FailValMin])
       \<and> Validate lib
            [\<lparr>Name = ''ListPrice'', Kind = IntKind, Tag = [(''validation'', ''valmax:9'')],
              FieldValue = int_value (-5)\<rparr>]
            (Some (empty_options\<lparr>ValidateWhenSuffix := True\<rparr>)) = Inr (True, Map.empty)"
proof -
  let ?unset = "ValMin v = 0 \<and> ValMax v = 0 \<and> Flags v AND ValMinNotNil = 0
    \<and> Flags v AND ValMaxNotNil = 0"
  let ?r = "setValidationFromSuffix v fieldName"
  have r: "?r = (if ?unset then v\<lparr>ValMin := 0, Flags := Flags v OR ValMinNotNil\<rparr> else v)"
    by (rule price_suffix [OF assms])
  have set_flag: "Flags ?r AND ValMinNotNil > 0" if "?unset"
    using that by (simp add: r flag_set_after_or)
  have changed: "?r \<noteq> v \<longleftrightarrow> ?unset"
  proof
    assume "?r \<noteq> v"
    then show "?unset" by (auto simp: r split: if_splits)
  next
    assume u: "?unset"
    then have "Flags ?r AND ValMinNotNil \<noteq> Flags v AND ValMinNotNil"
      using set_flag by simp
    then show "?r \<noteq> v" by auto
  qed
  have bounds: "ValMin ?r = ValMin v" "ValMax ?r = ValMax v"
    "Flags ?r AND ValMaxNotNil = Flags v AND ValMaxNotNil"
    by (simp_all add: r flag_set_after_or)
  have zero: "ValMin ?r = 0" if "?unset"
    using that by (simp add: r)
  have order: "Validate lib
      [\<lparr>Name = fieldName, Kind = k, Tag = [(''validation'', tag)], FieldValue = x\<rparr>]
      (Some (empty_options\<lparr>ValidateWhenSuffix := True\<rparr>))
    = (if \<not> isInt k \<and> k \<noteq> String then Inr (True, Map.empty)
       else (case setValidationFromTags lib NewValueValidation tag [] of
               Inl e \<Rightarrow> Inl e
             | Inr parsed \<Rightarrow>
                 (case ValidateReflectValue lib
                         (setValidationFromSuffix parsed fieldName) x of
                    Inl e \<Rightarrow> Inl e
                  | Inr (ok, c) \<Rightarrow>
                      if ok then Inr (True, Map.empty)
                      else Inr (False, [fieldName \<mapsto> c]))))"
    unfolding Validate_single_field if_True by (rule refl)
  show ?thesis
    using r changed bounds zero set_flag order
      Price_field_with_bound [OF assms, of lib tag _ k x]
      Price_field_without_bound [OF assms, of lib tag _ k x]
      ListPrice_as_valmin0 [of lib k x] ListPrice_values [of lib] ListPrice_valmax9 [of lib]
    by blast
qed

theorem price_suffix_inference_witness:
  "setValidationFromSuffix (NewValueValidation :: string ValueValidation) ''ListPrice''
     = \<lparr>LenMin = -1, LenMax = -1, ValMin = 0, ValMax = 0, Regexp = None,
        Flags = ValMinNotNil\<rparr>
   \<and> setValidationFromSuffix
       \<lparr>LenMin = -1, LenMax = -1, ValMin = 0, ValMax = 9, Regexp = None :: string option,
        Flags = 0\<rparr> ''ListPrice''
     = \<lparr>LenMin = -1, LenMax = -1, ValMin = 0, ValMax = 9, Regexp = None, Flags = 0\<rparr>
   \<and> Validate literal_lib
       [\<lparr>Name = ''ListPrice'', Kind = IntKind, Tag = [(''validation'', ''valmax:9'')],
         FieldValue = int_value (-5)\<rparr>]
       (Some (empty_options\<lparr>ValidateWhenSuffix := True\<rparr>)) = Inr (True, Map.empty)"
  using price_suffix_inference [where fieldName = "''ListPrice''"
      and v = "NewValueValidation :: string ValueValidation"
      and lib = literal_lib and k = IntKind and x = Invalid and tag = "[]"]
    price_suffix_inference [where fieldName = "''ListPrice''"
      and v = "\<lparr>LenMin = -1, LenMax = -1, ValMin = 0, ValMax = 9,
        Regexp = None :: string option, Flags = 0\<rparr>"
      and lib = literal_lib and k = IntKind and x = Invalid and tag = "[]"]
  by (simp add: NewValueValidation_def suffix_def Flag_defs)

section \<open>The pattern of the side channel\<close>

lemma side_channel_sets_pattern:
  assumes "tagRegexp \<noteq> []" and "setValidationFromTags lib v tag tagRegexp = Inr v'"
  shows "Regexp v' = Compile lib tagRegexp \<and> Compile lib tagRegexp \<noteq> None"
  using assms
  by (auto simp: setValidationFromTags_def MustCompile_def split: sum.splits option.splits)

lemma side_channel_overrides:
  assumes "tagRegexp \<noteq> []" and "setValidationFromTags lib v tag [] = Inr v0"
    and "Compile lib tagRegexp = Some r"
  shows "setValidationFromTags lib v tag tagRegexp = Inr (v0\<lparr>Regexp := Some r\<rparr>)"
  using assms
  by (auto simp: setValidationFromTags_def MustCompile_def split: sum.splits)

lemma side_channel_returns:
  assumes "tagRegexp \<noteq> []"
  shows "isl (setValidationFromTags lib v tag tagRegexp)
     \<longleftrightarrow> isl (setValidationFromTags lib v tag []) \<or> Compile lib tagRegexp = None"
  using assms
  by (auto simp: setValidationFromTags_def MustCompile_def split: sum.splits option.splits)

text \<open>
  C6: for a side-channel pattern text that is not empty, a rule that the parser returns
  has the compiled side-channel pattern as its pattern, and it is the rule that the rule
  text gives alone with the pattern replaced, whatever pattern a \<open>regexp:\<close> token had
  set; the parser returns such a rule unless the tokens make it panic or the
  side-channel pattern does not compile.
\<close>

theorem side_channel_pattern_overrides:
  assumes "tagRegexp \<noteq> []"
  shows "(\<forall>v'. setValidationFromTags lib v tag tagRegexp = Inr v'
            \<longrightarrow> Regexp v' = Compile lib tagRegexp \<and> Compile lib tagRegexp \<noteq> None)
       \<and> (\<forall>v0 r. setValidationFromTags lib v tag [] = Inr v0
              \<and> Compile lib tagRegexp = Some r
            \<longrightarrow> setValidationFromTags lib v tag tagRegexp = Inr (v0\<lparr>Regexp := Some r\<rparr>))
       \<and> (isl (setValidationFromTags lib v tag tagRegexp)
            \<longleftrightarrow> isl (setValidationFromTags lib v tag []) \<or> Compile lib tagRegexp = None)"
  using side_channel_sets_pattern [OF assms, of lib v tag]
    side_channel_overrides [OF assms, of lib v tag]
    side_channel_returns [OF assms, of lib v tag]
  by blast

theorem side_channel_pattern_overrides_witness:
  "setValidationFromTags literal_lib NewValueValidation ''req regexp:a'' []
     = Inr \<lparr>LenMin = -1, LenMax = -1, ValMin = 0, ValMax = 0, Regexp = Some ''a'',
            Flags = Required\<rparr>
   \<and> setValidationFromTags literal_lib NewValueValidation ''req regexp:a'' ''zz''
     = Inr \<lparr>LenMin = -1, LenMax = -1, ValMin = 0, ValMax = 0, Regexp = Some ''zz'',
            Flags = Required\<rparr>"
proof -
  have alone: "setValidationFromTags literal_lib NewValueValidation ''req regexp:a'' []
     = Inr \<lparr>LenMin = -1, LenMax = -1, ValMin = 0, ValMax = 0, Regexp = Some ''a'',
            Flags = Required\<rparr>"
    by (simp add: setValidationFromTags_def setValidationFromTags_opt_def
        setValidationFromTags_valOpt_def NewValueValidation_def MustCompile_def
        literal_lib_def)
  have "Compile literal_lib ''zz'' = Some ''zz''"
    by (simp add: literal_lib_def)
  with alone show ?thesis
    using side_channel_pattern_overrides [where tagRegexp = "''zz''" and lib = literal_lib
        and v = NewValueValidation and tag = "''req regexp:a''"]
    by simp
qed

section \<open>Panics\<close>

lemma parse_regexp_token_panics:
  assumes "opt \<in> set (SplitN tag)" and "prefix ''regexp:'' opt"
    and "Compile lib (drop 7 opt) = None"
  shows "isl (setValidationFromTags lib v tag tagRegexp)"
  using opts_regexp_token_panics [OF assms, of v]
  by (auto simp: setValidationFromTags_def isl_def)

lemma parse_side_channel_panics:
  assumes "tagRegexp \<noteq> []" and "Compile lib tagRegexp = None"
  shows "isl (setValidationFromTags lib v tag tagRegexp)"
  using assms by (simp add: setValidationFromTags_def MustCompile_def split: sum.splits)

lemma Validate_fields_panics:
  assumes "field \<in> set obj"
    and "RestrictFields opts = [] \<or> map_of (RestrictFields opts) (Name field) = Some True"
    and "isInt (Kind field) \<or> Kind field = String"
    and "isl (setValidationFromTags lib NewValueValidation
           (fst (getFieldTagValues field tagName (OverwriteFieldTags opts)))
           (snd (getFieldTagValues field tagName (OverwriteFieldTags opts))))"
  shows "isl (Validate_fields lib opts tagName obj st)"
  using assms(1)
proof (induction obj arbitrary: st)
  case Nil
  then show ?case by simp
next
  case (Cons f rest)
  show ?case
  proof (cases "f = field")
    case True
    then show ?thesis
      using assms(2-4) by (auto simp: isl_def)
  next
    case False
    with Cons.prems have "field \<in> set rest" by simp
    then have "isl (Validate_fields lib opts tagName rest st')" for st'
      by (rule Cons.IH)
    then show ?thesis
      by (auto simp: Let_def split: sum.splits prod.splits)
  qed
qed

text \<open>
  C8: \<^verbatim>\<open>Validate\<close> with nil options panics. The parser panics on a rule text with a
  token \<open>regexp:\<close> whose pattern does not compile, and on a side-channel pattern text that
  is not empty and does not compile. When the parser panics for a field that \<^verbatim>\<open>Validate\<close>
  processes (a field of an integer or string kind that the restriction, if there is
  one, lists as true), \<^verbatim>\<open>Validate\<close> panics: it returns no result, neither the boolean nor
  the map of the fields that came before.
\<close>

theorem usage_errors_panic:
  "Validate lib obj None = Inl NilOptions
   \<and> (opt \<in> set (SplitN tag) \<and> prefix ''regexp:'' opt \<and> Compile lib (drop 7 opt) = None
      \<longrightarrow> isl (setValidationFromTags lib v tag tagRegexp))
   \<and> (tagRegexp \<noteq> [] \<and> Compile lib tagRegexp = None
      \<longrightarrow> isl (setValidationFromTags lib v tag tagRegexp))
   \<and> (field \<in> set obj
        \<and> (RestrictFields opts = [] \<or> map_of (RestrictFields opts) (Name field) = Some True)
        \<and> (isInt (Kind field) \<or> Kind field = String)
        \<and> isl (setValidationFromTags lib NewValueValidation
              (fst (getFieldTagValues field
                 (if OverwriteTagName opts \<noteq> [] then OverwriteTagName opts else ''validation'')
                 (OverwriteFieldTags opts)))
              (snd (getFieldTagValues field
                 (if OverwriteTagName opts \<noteq> [] then OverwriteTagName opts else ''validation'')
                 (OverwriteFieldTags opts))))
      \<longrightarrow> isl (Validate lib obj (Some opts)))"
proof -
  have "Validate lib obj None = Inl NilOptions"
    by (simp add: Validate_def)
  moreover have "isl (Validate lib obj (Some opts))"
    if "field \<in> set obj"
      "RestrictFields opts = [] \<or> map_of (RestrictFields opts) (Name field) = Some True"
      "isInt (Kind field) \<or> Kind field = String"
      "isl (setValidationFromTags lib NewValueValidation
              (fst (getFieldTagValues field
                 (if OverwriteTagName opts \<noteq> [] then OverwriteTagName opts else ''validation'')
                 (OverwriteFieldTags opts)))
              (snd (getFieldTagValues field
                 (if OverwriteTagName opts \<noteq> [] then OverwriteTagName opts else ''validation'')
                 (OverwriteFieldTags opts))))"
    unfolding Validate_def option.case Let_def
    using that by (rule Validate_fields_panics)
  ultimately show ?thesis
    using parse_regexp_token_panics [of opt tag lib v tagRegexp]
      parse_side_channel_panics [of tagRegexp lib v tag]
    by blast
qed

theorem usage_errors_panic_witness:
  "Validate literal_lib
     [\<lparr>Name = ''Age'', Kind = IntKind, Tag = [(''validation'', ''req valmin:18'')],
       FieldValue = int_value 10\<rparr>,
      \<lparr>Name = ''Code'', Kind = String,
       Tag = [(''validation'', ''req''), (''validation_regexp'', ''('')],
       FieldValue = string_value ''a''\<rparr>] None = Inl NilOptions
   \<and> isl (Validate literal_lib
     [\<lparr>Name = ''Age'', Kind = IntKind, Tag = [(''validation'', ''req valmin:18'')],
       FieldValue = int_value 10\<rparr>,
      \<lparr>Name = ''Code'', Kind = String,
       Tag = [(''validation'', ''req''), (''validation_regexp'', ''('')],
       FieldValue = string_value ''a''\<rparr>] (Some empty_options))
   \<and> isl (setValidationFromTags literal_lib NewValueValidation ''req regexp:('' [])"
  using usage_errors_panic [where lib = literal_lib
      and obj = "[\<lparr>Name = ''Age'', Kind = IntKind, Tag = [(''validation'', ''req valmin:18'')],
         FieldValue = int_value 10\<rparr>,
        \<lparr>Name = ''Code'', Kind = String,
         Tag = [(''validation'', ''req''), (''validation_regexp'', ''('')],
         FieldValue = string_value ''a''\<rparr>]"
      and field = "\<lparr>Name = ''Code'', Kind = String,
         Tag = [(''validation'', ''req''), (''validation_regexp'', ''('')],
         FieldValue = string_value ''a''\<rparr>"
      and opts = empty_options and opt = "''regexp:(''" and tag = "''req regexp:(''"
      and tagRegexp = "[]" and v = NewValueValidation]
  by (simp add: empty_options_def getFieldTagValues_def Tag_Get_def
      setValidationFromTags_def setValidationFromTags_opt_def
      setValidationFromTags_valOpt_def MustCompile_def literal_lib_def)

section \<open>Length bounds that are not positive\<close>

lemma digits_val_digits: "digits_val n ds = Some m \<Longrightarrow> c \<in> set ds \<Longrightarrow> is_digit c"
  by (induction ds arbitrary: n) (auto split: if_splits)

lemma Atoi_no_space: "Atoi s = Some n \<Longrightarrow> CHR '' '' \<notin> set s"
proof
  assume a: "Atoi s = Some n" and sp: "CHR '' '' \<in> set s"
  have nd: "\<not> is_digit (CHR '' '')" by (simp add: is_digit_def)
  from a obtain c cs where s: "s = c # cs" by (cases s) (auto simp: Atoi_def)
  let ?ds = "if c = CHR ''-'' \<or> c = CHR ''+'' then cs else s"
  from a s obtain m where m: "digits_val 0 ?ds = Some m"
    by (auto simp: Atoi_def Let_def split: if_splits option.splits)
  from sp s have "CHR '' '' \<in> set ?ds" by (auto split: if_splits)
  with m have "is_digit (CHR '' '')" by (rule digits_val_digits)
  with nd show False by simp
qed

lemma parse_lenmin:
  assumes "Atoi s = Some n"
  shows "setValidationFromTags lib v (''lenmin:'' @ s) [] = Inr (v\<lparr>LenMin := n\<rparr>)"
  using assms Atoi_no_space [OF assms]
  by (simp add: setValidationFromTags_def SplitN_no_space setValidationFromTags_opt_def
      setValidationFromTags_valOpt_def)

lemma parse_lenmax:
  assumes "Atoi s = Some n"
  shows "setValidationFromTags lib v (''lenmax:'' @ s) [] = Inr (v\<lparr>LenMax := n\<rparr>)"
  using assms Atoi_no_space [OF assms]
  by (simp add: setValidationFromTags_def SplitN_no_space setValidationFromTags_opt_def
      setValidationFromTags_valOpt_def)

lemma check_required_LenMin_LenMax:
  "check_required (v\<lparr>LenMin := n\<rparr>) name tstr p = check_required v name tstr p"
  "check_required (v\<lparr>LenMax := n\<rparr>) name tstr p = check_required v name tstr p"
  by (auto simp add: check_required_def Let_def split: sum.splits)

lemma check_int_LenMin_LenMax:
  "check_int (v\<lparr>LenMin := n\<rparr>) name p = check_int v name p"
  "check_int (v\<lparr>LenMax := n\<rparr>) name p = check_int v name p"
  by (auto simp add: check_int_def Let_def split: sum.splits bool.splits)

lemma check_string_LenMin_unset:
  "n \<le> 0 \<Longrightarrow> check_string lib (v\<lparr>LenMin := n\<rparr>) name tstr p
     = check_string lib (v\<lparr>LenMin := -1\<rparr>) name tstr p"
  by (auto simp add: check_string_def Let_def split: sum.splits option.splits)

lemma check_string_LenMax_unset:
  "n \<le> 0 \<Longrightarrow> check_string lib (v\<lparr>LenMax := n\<rparr>) name tstr p
     = check_string lib (v\<lparr>LenMax := -1\<rparr>) name tstr p"
  by (auto simp add: check_string_def Let_def split: sum.splits option.splits)

lemma LenMin_unset:
  assumes "n \<le> 0"
  shows "ValidateReflectValue lib (v\<lparr>LenMin := n\<rparr>) x
     = ValidateReflectValue lib (v\<lparr>LenMin := -1\<rparr>) x"
  unfolding ValidateReflectValue_def check_required_LenMin_LenMax check_int_LenMin_LenMax
    check_string_LenMin_unset [OF assms] ..

lemma LenMax_unset:
  assumes "n \<le> 0"
  shows "ValidateReflectValue lib (v\<lparr>LenMax := n\<rparr>) x
     = ValidateReflectValue lib (v\<lparr>LenMax := -1\<rparr>) x"
  unfolding ValidateReflectValue_def check_required_LenMin_LenMax check_int_LenMin_LenMax
    check_string_LenMax_unset [OF assms] ..

lemma check_string_LenMin:
  "check_string lib v name tstr p = Inr (Some c) \<Longrightarrow> c = FailLenMin \<Longrightarrow> LenMin v > 0"
  by (auto simp add: check_string_def Let_def Fail_defs split: if_splits sum.splits)

lemma check_string_LenMax:
  "check_string lib v name tstr p = Inr (Some c) \<Longrightarrow> c = FailLenMax \<Longrightarrow> LenMax v > 0"
  by (auto simp add: check_string_def Let_def Fail_defs split: if_splits sum.splits)

lemma fires_code:
  assumes "fires c (ValidateReflectValue lib v x)"
    and "c \<in> {FailLenMin, FailLenMax, FailValMin, FailValMax, FailEmpty, FailRegexp,
            FailEmail, FailZero}"
  shows "\<exists>ok. ValidateReflectValue lib v x = Inr (ok, c)"
proof -
  from assms(1) obtain ok c' where r: "ValidateReflectValue lib v x = Inr (ok, c')"
    and b: "c' AND c \<noteq> 0"
    by (auto simp: fires_def split: sum.splits)
  from one_code [OF r] b assms(2) have "c' = c"
    by (auto simp: Fail_defs)
  with r show ?thesis by blast
qed

lemma no_LenMin:
  assumes "LenMin v \<le> 0"
  shows "\<not> fires FailLenMin (ValidateReflectValue lib v x)"
proof
  assume "fires FailLenMin (ValidateReflectValue lib v x)"
  then obtain ok where r: "ValidateReflectValue lib v x = Inr (ok, FailLenMin)"
    using fires_code by blast
  then show False
    using assms
    by (elim ValidateReflectValue_cases)
      (auto dest: check_required_codes check_int_codes check_string_LenMin simp: Fail_defs)
qed

lemma no_LenMax:
  assumes "LenMax v \<le> 0"
  shows "\<not> fires FailLenMax (ValidateReflectValue lib v x)"
proof
  assume "fires FailLenMax (ValidateReflectValue lib v x)"
  then obtain ok where r: "ValidateReflectValue lib v x = Inr (ok, FailLenMax)"
    using fires_code by blast
  then show False
    using assms
    by (elim ValidateReflectValue_cases)
      (auto dest: check_required_codes check_int_codes check_string_LenMax simp: Fail_defs)
qed

text \<open>
  C9: a length bound that is 0 or negative is no constraint. For every value, a rule
  with such a minimal length gives the result of the same rule with the minimal length
  unset (-1, as \<^verbatim>\<open>NewValueValidation\<close> sets it) and never \<open>FailLenMin\<close>; likewise for the
  maximal length and \<open>FailLenMax\<close>. A token \<open>lenmin:\<close> or \<open>lenmax:\<close> followed by the
  text of such an integer stores it in the rule.
\<close>

theorem nonpositive_length_bound_unset:
  assumes "n \<le> 0"
  shows "ValidateReflectValue lib (v\<lparr>LenMin := n\<rparr>) x
           = ValidateReflectValue lib (v\<lparr>LenMin := -1\<rparr>) x
       \<and> ValidateReflectValue lib (v\<lparr>LenMax := n\<rparr>) x
           = ValidateReflectValue lib (v\<lparr>LenMax := -1\<rparr>) x
       \<and> \<not> fires FailLenMin (ValidateReflectValue lib (v\<lparr>LenMin := n\<rparr>) x)
       \<and> \<not> fires FailLenMax (ValidateReflectValue lib (v\<lparr>LenMax := n\<rparr>) x)
       \<and> (Atoi s = Some n
          \<longrightarrow> setValidationFromTags lib v (''lenmin:'' @ s) [] = Inr (v\<lparr>LenMin := n\<rparr>)
            \<and> setValidationFromTags lib v (''lenmax:'' @ s) [] = Inr (v\<lparr>LenMax := n\<rparr>))"
  using LenMin_unset [OF assms, of lib v x] LenMax_unset [OF assms, of lib v x]
    no_LenMin [of "v\<lparr>LenMin := n\<rparr>" lib x] no_LenMax [of "v\<lparr>LenMax := n\<rparr>" lib x]
    parse_lenmin [of s n lib v] parse_lenmax [of s n lib v] assms
  by simp

theorem nonpositive_length_bound_unset_witness:
  "setValidationFromTags literal_lib NewValueValidation ''lenmin:-3'' []
     = Inr (NewValueValidation\<lparr>LenMin := -3\<rparr>)
   \<and> ValidateReflectValue literal_lib (NewValueValidation\<lparr>LenMin := -3\<rparr>) (string_value [])
     = ValidateReflectValue literal_lib (NewValueValidation\<lparr>LenMin := -1\<rparr>)
         (string_value [])
   \<and> \<not> fires FailLenMin
        (ValidateReflectValue literal_lib (NewValueValidation\<lparr>LenMin := -3\<rparr>)
           (string_value []))"
proof -
  have bound: "(-3::int) \<le> 0"
    by simp
  have parsed: "Atoi ''-3'' = Some (-3)"
    by (simp add: Atoi_def is_digit_def)
  note inst = nonpositive_length_bound_unset [OF bound, where lib = literal_lib
      and v = NewValueValidation and x = "string_value []" and s = "''-3''"]
  from parsed inst
  have "setValidationFromTags literal_lib NewValueValidation (''lenmin:'' @ ''-3'') []
      = Inr (NewValueValidation\<lparr>LenMin := -3\<rparr>)"
    by blast
  then have "setValidationFromTags literal_lib NewValueValidation ''lenmin:-3'' []
      = Inr (NewValueValidation\<lparr>LenMin := -3\<rparr>)"
    by simp
  with inst show ?thesis
    by blast
qed

end
